theory Spec2Isabelle
  imports Complex_Main
begin

section \<open>JavaScript numbers\<close>

text \<open>
  The cadence code of \<^verbatim>\<open>src/frontend/app.js\<close> computes with JavaScript numbers. Finite
  numbers are idealised as reals: the rounding, overflow and underflow of double
  arithmetic and the sign of zero are left out. The three non-finite values that a
  division by zero creates and that the arithmetic then propagates are kept as values of
  their own, with the IEEE 754 rules for them. What is proved below of a computed mean,
  variance or threshold uses that value only as the code does, in its comparisons, and
  holds whatever number the arithmetic yields; concrete frames are chosen so that every
  intermediate value is small and dyadic or only bounded.
\<close>

datatype jsnum = Fin real | PInf | NInf | NaN

fun jneg :: "jsnum \<Rightarrow> jsnum" where
  "jneg (Fin a) = Fin (- a)"
| "jneg PInf = NInf"
| "jneg NInf = PInf"
| "jneg NaN = NaN"

fun jadd :: "jsnum \<Rightarrow> jsnum \<Rightarrow> jsnum" where
  "jadd NaN b = NaN"
| "jadd a NaN = NaN"
| "jadd (Fin a) (Fin b) = Fin (a + b)"
| "jadd (Fin a) b = b"
| "jadd a (Fin b) = a"
| "jadd PInf PInf = PInf"
| "jadd NInf NInf = NInf"
| "jadd PInf NInf = NaN"
| "jadd NInf PInf = NaN"

definition jsub :: "jsnum \<Rightarrow> jsnum \<Rightarrow> jsnum" where
  "jsub a b = jadd a (jneg b)"

text \<open>The sign of a number that is not NaN, as \<open>-1\<close>, \<open>0\<close> or \<open>1\<close>.\<close>

fun jsign :: "jsnum \<Rightarrow> real" where
  "jsign (Fin a) = sgn a"
| "jsign PInf = 1"
| "jsign NInf = - 1"
| "jsign NaN = 0"

definition inf_of_sign :: "real \<Rightarrow> jsnum" where
  "inf_of_sign s = (if s = 0 then NaN else if 0 < s then PInf else NInf)"

fun jmul :: "jsnum \<Rightarrow> jsnum \<Rightarrow> jsnum" where
  "jmul NaN b = NaN"
| "jmul a NaN = NaN"
| "jmul (Fin a) (Fin b) = Fin (a * b)"
| "jmul a b = inf_of_sign (jsign a * jsign b)"

text \<open>
  Division: a finite number over zero is an infinity of the dividend's sign, zero over
  zero and infinity over infinity are NaN, a finite number over an infinity is zero.
  The zero divisor counts as positive (the sums that reach a divisor here start from
  \<open>+0\<close>, and an IEEE sum is never \<open>-0\<close> then).
\<close>

fun jdiv :: "jsnum \<Rightarrow> jsnum \<Rightarrow> jsnum" where
  "jdiv NaN b = NaN"
| "jdiv a NaN = NaN"
| "jdiv (Fin a) (Fin b) = (if b = 0 then inf_of_sign (sgn a) else Fin (a / b))"
| "jdiv (Fin a) b = Fin 0"
| "jdiv a (Fin b) = inf_of_sign (jsign a * (if b < 0 then - 1 else 1))"
| "jdiv a b = NaN"

text \<open>\<^verbatim>\<open>Math.round\<close> rounds to the nearest integer, a half upwards: \<open>\<lfloor>x + 1/2\<rfloor>\<close>.\<close>

fun jround :: "jsnum \<Rightarrow> jsnum" where
  "jround (Fin a) = Fin (of_int (round a))"
| "jround a = a"

fun jabs :: "jsnum \<Rightarrow> jsnum" where
  "jabs (Fin a) = Fin \<bar>a\<bar>"
| "jabs NaN = NaN"
| "jabs a = PInf"

text \<open>The comparison \<^verbatim>\<open>a > b\<close>: false as soon as one side is NaN.\<close>

fun jgt :: "jsnum \<Rightarrow> jsnum \<Rightarrow> bool" where
  "jgt NaN b = False"
| "jgt a NaN = False"
| "jgt (Fin a) (Fin b) = (b < a)"
| "jgt PInf b = (b \<noteq> PInf)"
| "jgt a NInf = (a \<noteq> NInf)"
| "jgt a b = False"

text \<open>\<^verbatim>\<open>Math.max\<close> of two numbers: NaN as soon as one of them is.\<close>

definition jmax :: "jsnum \<Rightarrow> jsnum \<Rightarrow> jsnum" where
  "jmax a b = (if a = NaN \<or> b = NaN then NaN else if jgt b a then b else a)"

definition finite_num :: "jsnum \<Rightarrow> bool" where
  "finite_num a = (case a of Fin r \<Rightarrow> True | _ \<Rightarrow> False)"

section \<open>Errors\<close>

text \<open>
  The exceptions of the modelled code: the \<^verbatim>\<open>TypeError\<close> of \<^verbatim>\<open>reduce\<close> on an empty
  array without initial value and of a property read on \<^verbatim>\<open>null\<close>, and the rejections of
  \<^verbatim>\<open>fetch\<close> and \<^verbatim>\<open>res.json()\<close>.
\<close>

datatype error = TypeError | FetchFailed | SyntaxError

section \<open>The cadence estimator: \<^verbatim>\<open>calculateSPM\<close>\<close>

text \<open>\<^verbatim>\<open>data.reduce((a, b) => a + b, 0) / data.length\<close>, for a frame that is not empty.\<close>

definition avg :: "real list \<Rightarrow> real" where
  "avg data = foldl (\<lambda>a b. a + b) 0 data / real (length data)"

text \<open>
  \<^verbatim>\<open>data.reduce((a, b) => a + Math.pow(b - avg, 2), 0) / data.length\<close>. As everywhere,
  the sums are taken without rounding: the value is the one the code computes only up to
  the rounding of its additions. Of the frames evaluated below, what is stated of this
  value (an equation on small dyadic samples, a bound otherwise) holds of the computed
  one as well.
\<close>

definition variance :: "real list \<Rightarrow> real" where
  "variance data = foldl (\<lambda>a b. a + (b - avg data)\<^sup>2) 0 data / real (length data)"

definition threshold :: "real list \<Rightarrow> real" where
  "threshold data = avg data + (7 / 10) * sqrt (variance data)"

text \<open>
  The loop \<^verbatim>\<open>for (let i = 1; i < data.length; i++)\<close> with its two variables \<^verbatim>\<open>steps\<close>
  and \<^verbatim>\<open>cross\<close>; the value is \<^verbatim>\<open>steps\<close> when the loop ends.
\<close>

function stepLoop :: "real list \<Rightarrow> real \<Rightarrow> nat \<Rightarrow> nat \<Rightarrow> bool \<Rightarrow> nat" where
  "stepLoop data thr i steps cross =
     (if i < length data then
        (if data ! i > thr \<and> \<not> cross then stepLoop data thr (i + 1) (steps + 1) True
         else if data ! i < thr then stepLoop data thr (i + 1) steps False
         else stepLoop data thr (i + 1) steps cross)
      else steps)"
  by pat_completeness auto
termination
  by (relation "measure (\<lambda>(data, thr, i, steps, cross). length data - i)") auto

declare stepLoop.simps [simp del]

text \<open>
  \<^verbatim>\<open>Math.round((steps / (durationMs / 1000)) * 60)\<close>: a zero duration gives \<^verbatim>\<open>NaN\<close>
  or \<^verbatim>\<open>Infinity\<close>; a quotient of finite operands is taken without rounding or overflow.
\<close>

definition rawSpm :: "nat \<Rightarrow> real \<Rightarrow> jsnum" where
  "rawSpm steps durationMs =
     jround (jmul (jdiv (Fin (real steps)) (jdiv (Fin durationMs) (Fin 1000))) (Fin 60))"

text \<open>
  \<^verbatim>\<open>arr.reduce(f)\<close> without initial value: the first element starts the fold, and an empty
  array raises a \<^verbatim>\<open>TypeError\<close>.
\<close>

definition reduce1 :: "('a \<Rightarrow> 'a \<Rightarrow> 'a) \<Rightarrow> 'a list \<Rightarrow> error + 'a" where
  "reduce1 f xs = (case xs of [] \<Rightarrow> Inl TypeError | x # rest \<Rightarrow> Inr (foldl f x rest))"

text \<open>
  The last three lines of \<^verbatim>\<open>calculateSPM\<close>: \<^verbatim>\<open>spmHistory.push(rawSpm)\<close>, one
  \<^verbatim>\<open>shift()\<close> when the length exceeds 3, and the rounded mean of what is left. The
  result is the returned number and the new \<^verbatim>\<open>spmHistory\<close>.
\<close>

definition pushHistory :: "jsnum \<Rightarrow> jsnum list \<Rightarrow> jsnum list" where
  "pushHistory raw hist =
     (let pushed = hist @ [raw]
      in if length pushed > 3 then tl pushed else pushed)"

definition smoothSpm :: "jsnum \<Rightarrow> jsnum list \<Rightarrow> error + (jsnum \<times> jsnum list)" where
  "smoothSpm raw hist =
     (let kept = pushHistory raw hist
      in case reduce1 jadd kept of
           Inl e \<Rightarrow> Inl e
         | Inr summed \<Rightarrow> Inr (jround (jdiv summed (Fin (real (length kept)))), kept))"

text \<open>The threshold and the loop of \<^verbatim>\<open>calculateSPM\<close>: the number of steps of a frame.\<close>

definition countSteps :: "real list \<Rightarrow> nat" where
  "countSteps data = stepLoop data (threshold data) 1 0 False"

text \<open>
  \<^verbatim>\<open>calculateSPM(data, durationMs)\<close> with the global \<^verbatim>\<open>spmHistory\<close> passed in (\<open>hist\<close>) and
  returned. On an empty \<^verbatim>\<open>data\<close> the mean and the variance are \<^verbatim>\<open>0/0 = NaN\<close>, the test
  \<^verbatim>\<open>variance < 0.1\<close> is false and the loop body never runs, so \<^verbatim>\<open>steps\<close> is 0.
\<close>

definition calculateSPM :: "real list \<Rightarrow> real \<Rightarrow> jsnum list \<Rightarrow> error + (jsnum \<times> jsnum list)" where
  "calculateSPM data durationMs hist =
     (if data = [] then smoothSpm (rawSpm 0 durationMs) hist
      else if variance data < 1 / 10 then Inr (Fin 0, hist)
      else smoothSpm (rawSpm (countSteps data) durationMs) hist)"

section \<open>The page and the application state\<close>

text \<open>
  What an element of the page shows: its initial text, a number assigned to
  \<^verbatim>\<open>innerText\<close>, or a number followed by \<^verbatim>\<open>%\<close>.
\<close>

datatype content = Text string | Number jsnum | Percent jsnum

text \<open>
  The four elements the code looks up with \<^verbatim>\<open>getElementById\<close>: \<^verbatim>\<open>bpm-val\<close>,
  \<^verbatim>\<open>current-spm\<close>, \<^verbatim>\<open>sync-rate\<close> (their \<^verbatim>\<open>innerText\<close>) and \<^verbatim>\<open>sync-circle\<close> (its
  \<^verbatim>\<open>style.borderColor\<close>). \<open>None\<close> is an element that the page does not have.
\<close>

record page =
  bpm_val :: "content option"
  current_spm :: "content option"
  sync_rate :: "content option"
  sync_circle :: "string option"

text \<open>
  The value that \<^verbatim>\<open>currentSongBpm\<close> holds. It starts as the number 0 and is replaced by
  whatever \<^verbatim>\<open>data.bpm\<close> is in a parsed reply, which the code does not check to be a
  number: a JSON number (\<^verbatim>\<open>1e999\<close> parses to \<^verbatim>\<open>Infinity\<close>), a boolean, a string, or an array
  or object. A string carries the number that the conversion to a number reads from it
  (\<^verbatim>\<open>NaN\<close> if none); an array or object carries its conversion to a string and the number
  read from that.
\<close>

datatype jsvalue = Num jsnum | Bool bool | Str string jsnum | Obj string jsnum

text \<open>The test \<^verbatim>\<open>if (v)\<close>.\<close>

fun truthy :: "jsvalue \<Rightarrow> bool" where
  "truthy (Num n) = (n \<noteq> Fin 0 \<and> n \<noteq> NaN)"
| "truthy (Bool b) = b"
| "truthy (Str s n) = (s \<noteq> [])"
| "truthy (Obj s n) = True"

text \<open>The number that \<^verbatim>\<open>v > 0\<close> and \<^verbatim>\<open>spm - v\<close> convert \<^verbatim>\<open>v\<close> to.\<close>

fun toNumber :: "jsvalue \<Rightarrow> jsnum" where
  "toNumber (Num n) = n"
| "toNumber (Bool b) = Fin (if b then 1 else 0)"
| "toNumber (Str s n) = n"
| "toNumber (Obj s n) = n"

text \<open>What an element shows after \<^verbatim>\<open>el.innerText = v\<close>.\<close>

fun shown :: "jsvalue \<Rightarrow> content" where
  "shown (Num n) = Number n"
| "shown (Bool b) = Text (if b then ''true'' else ''false'')"
| "shown (Str s n) = Text s"
| "shown (Obj s n) = Text s"

text \<open>The globals of \<^verbatim>\<open>app.js\<close> that the cadence code uses, the page and the console.\<close>

record app =
  normData :: "real list"
  intervalData :: "real list"
  spmHistory :: "jsnum list"
  currentSongBpm :: jsvalue
  document :: page
  console :: "error list"

definition NUM_DATA_PER_FRAME :: nat where
  "NUM_DATA_PER_FRAME = 200"

definition initial :: "page \<Rightarrow> app" where
  "initial p = \<lparr>normData = [], intervalData = [], spmHistory = [], currentSongBpm = Num (Fin 0),
     document = p, console = []\<rparr>"

section \<open>The sync display: \<^verbatim>\<open>updateSyncDisplay\<close>\<close>

text \<open>
  The local \<^verbatim>\<open>syncRate\<close> of \<^verbatim>\<open>updateSyncDisplay\<close>, computed only under the guard
  \<^verbatim>\<open>spm > 0 && currentSongBpm > 0\<close>; \<open>None\<close> when the guard fails. The second argument
  is \<^verbatim>\<open>currentSongBpm\<close> as a number.
\<close>

definition syncRate :: "jsnum \<Rightarrow> jsnum \<Rightarrow> jsnum option" where
  "syncRate spm bpm =
     (if jgt spm (Fin 0) \<and> jgt bpm (Fin 0) then
        (let diff = jabs (jsub spm bpm)
         in Some (jmax (Fin 0) (jsub (Fin 100) diff)))
      else None)"

definition updateSyncDisplay :: "jsnum \<Rightarrow> app \<Rightarrow> app" where
  "updateSyncDisplay spm st =
     (let p1 = (case current_spm (document st) of
                  None \<Rightarrow> document st
                | Some old \<Rightarrow> (document st)\<lparr>current_spm := Some (Number spm)\<rparr>)
      in case syncRate spm (toNumber (currentSongBpm st)) of
           None \<Rightarrow> st\<lparr>document := p1\<rparr>
         | Some rate \<Rightarrow>
             (let p2 = (case sync_rate p1 of
                          None \<Rightarrow> p1
                        | Some old \<Rightarrow> p1\<lparr>sync_rate := Some (Percent (jround rate))\<rparr>);
                  p3 = (case sync_circle p2 of
                          None \<Rightarrow> p2
                        | Some old \<Rightarrow>
                            p2\<lparr>sync_circle :=
                                 Some (if jgt rate (Fin 90) then ''#1DB954'' else ''#333'')\<rparr>)
              in st\<lparr>document := p3\<rparr>))"

section \<open>The tempo poll: \<^verbatim>\<open>updateSongBpm\<close>\<close>

text \<open>
  What one poll of \<^verbatim>\<open>/api/current-track-bpm\<close> meets: \<^verbatim>\<open>fetch\<close> rejects (network
  error), \<^verbatim>\<open>res.json()\<close> rejects (the body is not JSON), or the body parses. Of a parsed
  body the code reads only \<^verbatim>\<open>data.bpm\<close>: the body is \<^verbatim>\<open>null\<close> (the read raises), it has
  no \<^verbatim>\<open>bpm\<close> or a \<^verbatim>\<open>null\<close> one, or \<^verbatim>\<open>bpm\<close> is some other value: a number as in the
  interface of the spec, \<^verbatim>\<open>{ "bpm": number }\<close>, or not (the endpoint itself is not among
  the sources).
\<close>

datatype body = JNull | JNoBpm | JBpm jsvalue

datatype response = Rejected | Unparsable | Parsed body

text \<open>The \<^verbatim>\<open>try\<close> block: the first exception ends it, before anything is written.\<close>

definition tryPoll :: "response \<Rightarrow> app \<Rightarrow> error + app" where
  "tryPoll r st =
     (case r of
        Rejected \<Rightarrow> Inl FetchFailed
      | Unparsable \<Rightarrow> Inl SyntaxError
      | Parsed JNull \<Rightarrow> Inl TypeError
      | Parsed JNoBpm \<Rightarrow> Inr st
      | Parsed (JBpm v) \<Rightarrow>
          (if truthy v then
             Inr (st\<lparr>currentSongBpm := v,
                     document := (case bpm_val (document st) of
                               None \<Rightarrow> document st
                             | Some old \<Rightarrow> (document st)\<lparr>bpm_val := Some (shown v)\<rparr>)\<rparr>)
           else Inr st))"

text \<open>
  \<^verbatim>\<open>updateSongBpm\<close>: the \<^verbatim>\<open>catch\<close> passes the exception to \<^verbatim>\<open>console.error\<close>. The
  result is \<open>Inl\<close> if the promise of the \<^verbatim>\<open>async\<close> function rejects.
\<close>

definition updateSongBpm :: "response \<Rightarrow> app \<Rightarrow> error + app" where
  "updateSongBpm r st =
     (case tryPoll r st of
        Inl e \<Rightarrow> Inr (st\<lparr>console := console st @ [e]\<rparr>)
      | Inr st' \<Rightarrow> Inr st')"

section \<open>The sample buffer: \<^verbatim>\<open>handleAcceleration\<close>\<close>

text \<open>
  A \<^verbatim>\<open>devicemotion\<close> event: \<^verbatim>\<open>ev.acceleration\<close> (absent, or three axes of which each
  is a number or \<^verbatim>\<open>null\<close>) and \<^verbatim>\<open>ev.interval\<close> (absent or a number).
\<close>

datatype acceleration =
  Acceleration (acc_x: "real option") (acc_y: "real option") (acc_z: "real option")

record devicemotion =
  ev_acceleration :: "acceleration option"
  ev_interval :: "real option"

text \<open>\<^verbatim>\<open>v ** 2\<close>, where \<^verbatim>\<open>null\<close> converts to 0.\<close>

definition sq :: "real option \<Rightarrow> real" where
  "sq v = (case v of None \<Rightarrow> 0 | Some r \<Rightarrow> r\<^sup>2)"

text \<open>\<^verbatim>\<open>ev.interval || 20\<close>: an absent interval and the interval 0 are falsy.\<close>

definition intervalOr20 :: "real option \<Rightarrow> real" where
  "intervalOr20 v = (case v of None \<Rightarrow> 20 | Some t \<Rightarrow> if t = 0 then 20 else t)"

text \<open>The local \<^verbatim>\<open>norm\<close>: \<^verbatim>\<open>Math.sqrt(acc.x ** 2 + acc.y ** 2 + acc.z ** 2)\<close>.\<close>

definition accelNorm :: "acceleration \<Rightarrow> real" where
  "accelNorm acc = sqrt (sq (acc_x acc) + sq (acc_y acc) + sq (acc_z acc))"

text \<open>
  \<^verbatim>\<open>handleAcceleration(ev)\<close>: an event without acceleration, or with a \<^verbatim>\<open>null\<close> x axis,
  is dropped; otherwise the sample and its interval are pushed, and the frame is processed
  and both buffers emptied once \<^verbatim>\<open>NUM_DATA_PER_FRAME\<close> samples are there. The result is
  \<open>Inl\<close> if an exception leaves the handler.
\<close>

definition handleAcceleration :: "devicemotion \<Rightarrow> app \<Rightarrow> error + app" where
  "handleAcceleration ev st =
     (case ev_acceleration ev of
        None \<Rightarrow> Inr st
      | Some acc \<Rightarrow>
          (if acc_x acc = None then Inr st
           else
             (let norm = accelNorm acc;
                  st1 = st\<lparr>normData := normData st @ [norm],
                           intervalData := intervalData st @ [intervalOr20 (ev_interval ev)]\<rparr>
              in if length (normData st1) \<ge> NUM_DATA_PER_FRAME then
                   (let totalDurationMs = foldl (\<lambda>a b. a + b) 0 (intervalData st1)
                    in case calculateSPM (normData st1) totalDurationMs (spmHistory st1) of
                         Inl e \<Rightarrow> Inl e
                       | Inr (spm, hist) \<Rightarrow>
                           Inr ((updateSyncDisplay spm (st1\<lparr>spmHistory := hist\<rparr>))
                                  \<lparr>normData := [], intervalData := []\<rparr>))
                 else Inr st1)))"

section \<open>Running the application\<close>

text \<open>
  The two sources of events, the sensor and the 5 second timer; each event is handled to
  completion before the next. The result is \<open>Inl\<close> as soon as a handler raises.
\<close>

datatype event = Motion devicemotion | Poll response

definition handle :: "event \<Rightarrow> app \<Rightarrow> error + app" where
  "handle e st = (case e of Motion ev \<Rightarrow> handleAcceleration ev st | Poll r \<Rightarrow> updateSongBpm r st)"

fun run :: "event list \<Rightarrow> app \<Rightarrow> error + app" where
  "run [] st = Inr st"
| "run (e # es) st = (case handle e st of Inl err \<Rightarrow> Inl err | Inr st' \<Rightarrow> run es st')"

section \<open>Predicates of the statements\<close>

text \<open>
  A reply that makes the \<^verbatim>\<open>try\<close> block store a tempo: a parsed body with a truthy
  \<^verbatim>\<open>bpm\<close>.
\<close>

definition stores :: "response \<Rightarrow> bool" where
  "stores r = (case r of Parsed (JBpm v) \<Rightarrow> truthy v | _ \<Rightarrow> False)"

text \<open>Events that bring no tempo: the sensor's, and the polls that store none.\<close>

definition bringsNoTempo :: "event \<Rightarrow> bool" where
  "bringsNoTempo e = (case e of Motion ev \<Rightarrow> True | Poll r \<Rightarrow> \<not> stores r)"

text \<open>
  The failures of a poll as the specification lists them: a network error, a malformed
  payload (a body that is not JSON, a \<^verbatim>\<open>null\<close> body, a \<^verbatim>\<open>bpm\<close> that is not a number)
  and a missing \<^verbatim>\<open>bpm\<close> field.
\<close>

definition specFails :: "response \<Rightarrow> bool" where
  "specFails r =
     (case r of
        Rejected \<Rightarrow> True
      | Unparsable \<Rightarrow> True
      | Parsed JNull \<Rightarrow> True
      | Parsed JNoBpm \<Rightarrow> True
      | Parsed (JBpm (Num n)) \<Rightarrow> False
      | Parsed (JBpm v) \<Rightarrow> True)"

section \<open>The step walk as the specification words it\<close>

text \<open>
  The walk of the specification over a list of samples with the flag \<open>crossed\<close>: a step at
  each sample above \<open>T\<close> met while the flag is false, which sets the flag; a sample below
  \<open>T\<close> clears it.
\<close>

fun specWalk :: "real \<Rightarrow> bool \<Rightarrow> real list \<Rightarrow> nat" where
  "specWalk T crossed [] = 0"
| "specWalk T crossed (x # xs) =
     (if x > T \<and> \<not> crossed then 1 + specWalk T True xs
      else if x < T then specWalk T False xs
      else specWalk T crossed xs)"

text \<open>The number of places where a sample at or below \<open>T\<close> is followed by one above.\<close>

definition transitions :: "real \<Rightarrow> real list \<Rightarrow> nat" where
  "transitions T xs = length (filter (\<lambda>i. xs ! i \<le> T \<and> T < xs ! (i + 1)) [0..<length xs - 1])"

definition samplesAbove :: "real \<Rightarrow> real list \<Rightarrow> nat" where
  "samplesAbove T xs = length (filter (\<lambda>x. T < x) xs)"

section \<open>Auxiliary facts\<close>

lemma foldl_plus_sum: "foldl (\<lambda>a b. a + f b) (a::real) xs = a + sum_list (map f xs)"
  by (induction xs arbitrary: a) simp_all

lemma avg_sum: "avg data = sum_list data / real (length data)"
  using foldl_plus_sum [of "\<lambda>b. b" 0 data] by (simp add: avg_def)

lemma variance_sum:
  "variance data = sum_list (map (\<lambda>b. (b - avg data)\<^sup>2) data) / real (length data)"
  using foldl_plus_sum [of "\<lambda>b. (b - avg data)\<^sup>2" 0 data] by (simp add: variance_def)

lemma stepLoop_specWalk:
  "stepLoop data T i steps cross = steps + specWalk T cross (drop i data)"
proof (induction data T i steps cross rule: stepLoop.induct)
  case (1 data thr i steps cross)
  show ?case
  proof (cases "i < length data")
    case True
    then have d: "drop i data = data ! i # drop (i + 1) data"
      by (simp add: Cons_nth_drop_Suc)
    show ?thesis
      using True 1 by (subst stepLoop.simps) (auto simp: d)
  next
    case False
    then show ?thesis by (subst stepLoop.simps) simp
  qed
qed

lemma countSteps_walk: "countSteps data = specWalk (threshold data) False (tl data)"
  by (simp add: countSteps_def stepLoop_specWalk drop_Suc)

lemma specWalk_none: "\<forall>x\<in>set xs. x \<le> T \<Longrightarrow> specWalk T c xs = 0"
  by (induction xs arbitrary: c) auto

lemma specWalk_le_above: "specWalk T c xs \<le> samplesAbove T xs"
proof (induction xs arbitrary: c)
  case Nil
  then show ?case by (simp add: samplesAbove_def)
next
  case (Cons x xs)
  have "specWalk T True xs \<le> samplesAbove T xs" "specWalk T False xs \<le> samplesAbove T xs"
    "specWalk T c xs \<le> samplesAbove T xs"
    by (rule Cons.IH)+
  then show ?case by (auto simp: samplesAbove_def)
qed

lemma transitions_Cons2:
  "transitions T (x # y # ys) = (if x \<le> T \<and> T < y then 1 else 0) + transitions T (y # ys)"
proof -
  have "[0..<Suc (length ys)] = 0 # map Suc [0..<length ys]"
    by (simp add: upt_conv_Cons map_Suc_upt del: upt_Suc)
  then show ?thesis
    by (simp add: transitions_def filter_map comp_def del: upt_Suc)
qed

lemma transitions_short [simp]: "transitions T [] = 0" "transitions T [x] = 0"
  by (simp_all add: transitions_def)

lemma specWalk_transitions:
  "\<forall>x\<in>set xs. x \<noteq> T \<Longrightarrow>
   specWalk T c xs = (if xs \<noteq> [] \<and> T < hd xs \<and> \<not> c then 1 else 0) + transitions T xs"
proof (induction xs arbitrary: c)
  case Nil
  then show ?case by simp
next
  case (Cons x xs)
  show ?case
  proof (cases xs)
    case Nil
    then show ?thesis using Cons.prems by auto
  next
    case (Cons y ys)
    then show ?thesis
      using Cons.prems Cons.IH [of True] Cons.IH [of False]
      by (auto simp: transitions_Cons2)
  qed
qed


lemma sum_list_concat_replicate:
  "sum_list (concat (replicate n xs)) = real n * sum_list (xs::real list)"
  by (induction n) (simp_all add: algebra_simps)

lemma map_concat_replicate: "map f (concat (replicate n xs)) = concat (replicate n (map f xs))"
  by (simp add: map_concat)

lemma length_concat_replicate: "length (concat (replicate n xs)) = n * length xs"
  by (induction n) simp_all

lemma specWalk_up_down:
  "low < T \<Longrightarrow> T < high \<Longrightarrow> specWalk T False (concat (replicate n [high, low])) = n"
  by (induction n) simp_all

lemma specWalk_down_up:
  "low < T \<Longrightarrow> T < high \<Longrightarrow> specWalk T c (concat (replicate n [low, high])) = n"
  by (induction n arbitrary: c) simp_all

lemma avg_up_down: "avg (2 # 0 # concat (replicate 99 [2, 0])) = 1"
  by (simp add: avg_sum sum_list_concat_replicate length_concat_replicate)

lemma variance_up_down: "variance (2 # 0 # concat (replicate 99 [2, 0])) = 1"
  by (simp add: variance_sum avg_up_down map_concat_replicate sum_list_concat_replicate
      length_concat_replicate)

lemma threshold_up_down: "threshold (2 # 0 # concat (replicate 99 [2, 0])) = 17 / 10"
  by (simp add: threshold_def avg_up_down variance_up_down)

lemma countSteps_up_down: "countSteps (2 # 0 # concat (replicate 99 [2, 0])) = 99"
  by (simp add: countSteps_walk threshold_up_down specWalk_up_down)

lemma avg_down_up: "avg (0 # 2 # concat (replicate 99 [0, 2])) = 1"
  by (simp add: avg_sum sum_list_concat_replicate length_concat_replicate)

lemma variance_down_up: "variance (0 # 2 # concat (replicate 99 [0, 2])) = 1"
  by (simp add: variance_sum avg_down_up map_concat_replicate sum_list_concat_replicate
      length_concat_replicate)

lemma threshold_down_up: "threshold (0 # 2 # concat (replicate 99 [0, 2])) = 17 / 10"
  by (simp add: threshold_def avg_down_up variance_down_up)

lemma countSteps_down_up: "countSteps (0 # 2 # concat (replicate 99 [0, 2])) = 100"
  by (simp add: countSteps_walk threshold_down_up specWalk_down_up)

lemma avg_still: "avg (replicate 100 1 @ replicate 100 (6 / 5)) = 11 / 10"
  by (simp add: avg_sum sum_list_replicate)

lemma variance_still: "variance (replicate 100 1 @ replicate 100 (6 / 5)) = 1 / 100"
  by (simp add: variance_sum avg_still sum_list_replicate power2_eq_square)

lemma avg_dips: "avg (replicate 160 5 @ replicate 40 0) = 4"
  by (simp add: avg_sum sum_list_replicate)

lemma variance_dips: "variance (replicate 160 5 @ replicate 40 0) = 4"
  by (simp add: variance_sum avg_dips sum_list_replicate)

lemma threshold_dips: "threshold (replicate 160 5 @ replicate 40 0) = 27 / 5"
  by (simp add: threshold_def avg_dips variance_dips)

lemma countSteps_dips: "countSteps (replicate 160 5 @ replicate 40 0) = 0"
  by (simp add: countSteps_walk threshold_dips specWalk_none)

lemma avg_spike: "avg (100 # replicate 199 0) = 1 / 2"
  by (simp add: avg_sum sum_list_replicate)

lemma variance_spike: "variance (100 # replicate 199 0) = 199 / 4"
  by (simp add: variance_sum avg_spike sum_list_replicate power2_eq_square)

lemma threshold_spike:
  "0 < threshold (100 # replicate 199 0)" "threshold (100 # replicate 199 0) < 100"
proof -
  have a: "sqrt (199 / 4) \<le> 8"
    by (rule real_le_lsqrt) simp_all
  have b: "0 \<le> sqrt (199 / 4 :: real)"
    by simp
  have t: "threshold (100 # replicate 199 0) = 1 / 2 + 7 / 10 * sqrt (199 / 4)"
    by (simp add: threshold_def avg_spike variance_spike)
  show "0 < threshold (100 # replicate 199 0)"
    unfolding t using b by linarith
  show "threshold (100 # replicate 199 0) < 100"
    unfolding t using a by linarith
qed

lemma countSteps_spike: "countSteps (100 # replicate 199 0) = 0"
  using threshold_spike(1) by (simp add: countSteps_walk specWalk_none)

lemma pushHistory_not_Nil: "pushHistory raw hist \<noteq> []"
  by (cases hist) (simp_all add: pushHistory_def Let_def)

lemma length_pushHistory: "length hist \<le> 3 \<Longrightarrow> length (pushHistory raw hist) \<le> 3"
  by (simp add: pushHistory_def Let_def)

lemma smoothSpm_Inr:
  "smoothSpm raw hist =
     Inr (jround (jdiv (foldl jadd (hd (pushHistory raw hist)) (tl (pushHistory raw hist)))
                       (Fin (real (length (pushHistory raw hist))))),
          pushHistory raw hist)"
  using pushHistory_not_Nil [of raw hist]
  by (cases "pushHistory raw hist") (simp_all add: smoothSpm_def reduce1_def Let_def)

lemma foldl_jadd_Fin: "foldl jadd (Fin a) (map Fin vs) = Fin (a + sum_list vs)"
  by (induction vs arbitrary: a) (simp_all add: add.assoc)

lemma rawSpm_zero_duration: "rawSpm n 0 = (if n = 0 then NaN else PInf)"
  by (simp add: rawSpm_def inf_of_sign_def)

lemma transitions_down_up:
  "low \<le> T \<Longrightarrow> T < high \<Longrightarrow> transitions T (high # concat (replicate n [low, high])) = n"
  by (induction n) (simp_all add: transitions_Cons2)

section \<open>The step count (claims C1 and C10)\<close>

text \<open>
  Claim C1, as the specification states it: the step count of a non-stationary frame is
  the count of the walk over all 200 samples. It fails on the frame that alternates
  \<open>2, 0, 2, 0, \<dots>\<close> (mean 1, variance 1, threshold 1.7): the walk over the whole frame
  counts 100 steps, the first of them at the first sample, and the loop of
  \<^verbatim>\<open>calculateSPM\<close> counts 99; over 4 seconds the cadence is 1485, where 100 steps would
  give 1500.
\<close>

theorem C1_whole_frame_walk_counterexample:
  "length (2 # 0 # concat (replicate 99 [2, 0]) :: real list) = 200
   \<and> \<not> variance (2 # 0 # concat (replicate 99 [2, 0])) < 1 / 10
   \<and> countSteps (2 # 0 # concat (replicate 99 [2, 0])) = 99
   \<and> specWalk (threshold (2 # 0 # concat (replicate 99 [2, 0]))) False
        (2 # 0 # concat (replicate 99 [2, 0])) = 100
   \<and> calculateSPM (2 # 0 # concat (replicate 99 [2, 0])) 4000 [] = Inr (Fin 1485, [Fin 1485])
   \<and> rawSpm 100 4000 = Fin 1500"
  by (simp add: length_concat_replicate variance_up_down countSteps_up_down threshold_up_down
      specWalk_up_down calculateSPM_def rawSpm_def smoothSpm_def pushHistory_def reduce1_def)

text \<open>
  Claim C1, amended: for every non-stationary frame the step count that enters the raw
  cadence is the count of the walk over the samples after the first (indices 1 to 199),
  with the flag initially false; it is at most the number of those samples above the
  threshold, and when none of them equals the threshold it is the number of transitions
  from at or below the threshold to above it among them, plus one if the second sample
  of the frame is itself above the threshold.
\<close>

theorem C1_steps_walk_after_first_sample:
  assumes "data \<noteq> []" and "\<not> variance data < 1 / 10"
  shows "calculateSPM data durationMs hist =
           smoothSpm (rawSpm (specWalk (threshold data) False (tl data)) durationMs) hist
    \<and> countSteps data = specWalk (threshold data) False (tl data)
    \<and> countSteps data \<le> samplesAbove (threshold data) (tl data)
    \<and> ((\<forall>s\<in>set (tl data). s \<noteq> threshold data) \<longrightarrow>
         countSteps data =
           (if tl data \<noteq> [] \<and> threshold data < hd (tl data) then 1 else 0)
           + transitions (threshold data) (tl data))"
proof -
  have w: "countSteps data = specWalk (threshold data) False (tl data)"
    by (rule countSteps_walk)
  have "calculateSPM data durationMs hist =
          smoothSpm (rawSpm (specWalk (threshold data) False (tl data)) durationMs) hist"
    using assms by (simp add: calculateSPM_def w)
  moreover have "countSteps data \<le> samplesAbove (threshold data) (tl data)"
    unfolding w by (rule specWalk_le_above)
  moreover have "(\<forall>s\<in>set (tl data). s \<noteq> threshold data) \<longrightarrow>
         countSteps data =
           (if tl data \<noteq> [] \<and> threshold data < hd (tl data) then 1 else 0)
           + transitions (threshold data) (tl data)"
    unfolding w using specWalk_transitions [of "tl data" "threshold data" False] by simp
  ultimately show ?thesis using w by blast
qed

text \<open>
  The amended claim on the frame that alternates \<open>0, 2, 0, 2, \<dots>\<close>: 100 steps, of which
  one is the second sample and 99 are transitions after it; with 4 seconds of samples
  the raw cadence is 1500.
\<close>

theorem C1_steps_walk_after_first_sample_witness:
  "(0 # 2 # concat (replicate 99 [0, 2]) :: real list) \<noteq> []
   \<and> \<not> variance (0 # 2 # concat (replicate 99 [0, 2])) < 1 / 10
   \<and> list_all (\<lambda>s. s \<noteq> threshold (0 # 2 # concat (replicate 99 [0, 2])))
        (tl (0 # 2 # concat (replicate 99 [0, 2])))
   \<and> countSteps (0 # 2 # concat (replicate 99 [0, 2])) = 100
   \<and> specWalk (threshold (0 # 2 # concat (replicate 99 [0, 2]))) False
        (tl (0 # 2 # concat (replicate 99 [0, 2]))) = 100
   \<and> transitions (threshold (0 # 2 # concat (replicate 99 [0, 2])))
        (tl (0 # 2 # concat (replicate 99 [0, 2]))) = 99
   \<and> calculateSPM (0 # 2 # concat (replicate 99 [0, 2])) 4000 [] = Inr (Fin 1500, [Fin 1500])"
proof -
  let ?F = "0 # 2 # concat (replicate 99 [0, 2]) :: real list"
  have n: "?F \<noteq> []"
    by simp
  have v: "\<not> variance ?F < 1 / 10"
    by (simp add: variance_down_up)
  have e: "list_all (\<lambda>s. s \<noteq> threshold ?F) (tl ?F)"
    by (auto simp: threshold_down_up list_all_iff)
  have s: "smoothSpm (rawSpm 100 4000) [] = Inr (Fin 1500, [Fin 1500])"
    by (simp add: smoothSpm_def pushHistory_def reduce1_def rawSpm_def)
  have w: "specWalk (threshold ?F) False (tl ?F) = 100"
    by (simp add: threshold_down_up specWalk_down_up)
  have t: "transitions (threshold ?F) (tl ?F) = 99"
    by (simp add: threshold_down_up transitions_down_up)
  note main = C1_steps_walk_after_first_sample [OF n v, of 4000 "[]"]
  have c: "calculateSPM ?F 4000 [] = Inr (Fin 1500, [Fin 1500])"
    using main [THEN conjunct1] unfolding w s .
  have k: "countSteps ?F = 100"
    using main [THEN conjunct2, THEN conjunct1] unfolding w .
  show ?thesis
    using n v e k w t c by (intro conjI)
qed






section \<open>The stationary test\<close>

text \<open>
  The test \<^verbatim>\<open>if (variance < 0.1) return 0\<close> precedes the push: when the variance that the
  code computes is below 0.1, \<^verbatim>\<open>calculateSPM\<close> returns 0 and leaves the history as it
  was. When \<^verbatim>\<open>handleAcceleration\<close> completes such a frame with its 200th sample, the
  history is unchanged, the buffers are emptied, the cadence element (if the page has it)
  shows 0 and the sync element is not written. Which frames pass the test is a matter of
  double arithmetic: the variance computed for a frame differs from its population
  variance by the rounding of 400 additions, and nothing is stated here of frames given
  by their population variance, as those of equal magnitudes are.
\<close>

lemma syncRate_zero: "syncRate (Fin 0) bpm = None"
  by (simp add: syncRate_def)

lemma updateSyncDisplay_no_rate:
  "syncRate spm (toNumber (currentSongBpm st)) = None \<Longrightarrow>
   updateSyncDisplay spm st =
     st\<lparr>document := (case current_spm (document st) of
                  None \<Rightarrow> document st
                | Some old \<Rightarrow> (document st)\<lparr>current_spm := Some (Number spm)\<rparr>)\<rparr>"
  by (simp add: updateSyncDisplay_def)

lemma calculateSPM_stationary:
  "data \<noteq> [] \<Longrightarrow> variance data < 1 / 10 \<Longrightarrow> calculateSPM data durationMs hist = Inr (Fin 0, hist)"
  by (simp add: calculateSPM_def)

lemma handleAcceleration_stationary:
  assumes "length (normData st) = 199" and "ev_acceleration ev = Some acc"
    and "acc_x acc \<noteq> None" and "variance (normData st @ [accelNorm acc]) < 1 / 10"
  shows "\<exists>st'. handleAcceleration ev st = Inr st' \<and> spmHistory st' = spmHistory st
          \<and> normData st' = [] \<and> intervalData st' = []
          \<and> sync_rate (document st') = sync_rate (document st)
          \<and> current_spm (document st') = map_option (\<lambda>old. Number (Fin 0)) (current_spm (document st))"
  using assms
  by (auto simp: handleAcceleration_def NUM_DATA_PER_FRAME_def calculateSPM_def Let_def
      updateSyncDisplay_no_rate syncRate_zero split: option.splits)

section \<open>Facts about the handlers and the run\<close>

lemma calculateSPM_Inr:
  "\<exists>r. calculateSPM data durationMs hist =
     Inr (r, if data \<noteq> [] \<and> variance data < 1 / 10 then hist
             else pushHistory (rawSpm (if data = [] then 0 else countSteps data) durationMs) hist)"
  by (simp add: calculateSPM_def smoothSpm_Inr)

lemma updateSyncDisplay_fields [simp]:
  "normData (updateSyncDisplay spm st) = normData st"
  "intervalData (updateSyncDisplay spm st) = intervalData st"
  "spmHistory (updateSyncDisplay spm st) = spmHistory st"
  "currentSongBpm (updateSyncDisplay spm st) = currentSongBpm st"
  "console (updateSyncDisplay spm st) = console st"
  by (simp_all add: updateSyncDisplay_def Let_def split: option.splits)

lemma handleAcceleration_cases:
  "handleAcceleration ev st = Inr st
   \<or> (\<exists>acc. ev_acceleration ev = Some acc \<and> acc_x acc \<noteq> None
        \<and> length (normData st) + 1 < NUM_DATA_PER_FRAME
        \<and> handleAcceleration ev st =
            Inr (st\<lparr>normData := normData st @ [accelNorm acc],
                    intervalData := intervalData st @ [intervalOr20 (ev_interval ev)]\<rparr>))
   \<or> (\<exists>acc spm hist. ev_acceleration ev = Some acc \<and> acc_x acc \<noteq> None
        \<and> NUM_DATA_PER_FRAME \<le> length (normData st) + 1
        \<and> calculateSPM (normData st @ [accelNorm acc])
             (foldl (\<lambda>a b. a + b) 0 (intervalData st @ [intervalOr20 (ev_interval ev)]))
             (spmHistory st) = Inr (spm, hist)
        \<and> handleAcceleration ev st =
            Inr ((updateSyncDisplay spm
                    (st\<lparr>normData := normData st @ [accelNorm acc],
                        intervalData := intervalData st @ [intervalOr20 (ev_interval ev)],
                        spmHistory := hist\<rparr>))
                 \<lparr>normData := [], intervalData := []\<rparr>))"
proof (cases "ev_acceleration ev")
  case None
  then show ?thesis by (simp add: handleAcceleration_def)
next
  case (Some acc)
  show ?thesis
  proof (cases "acc_x acc = None")
    case True
    then show ?thesis using Some by (simp add: handleAcceleration_def)
  next
    case False
    obtain spm hist where c: "calculateSPM (normData st @ [accelNorm acc])
             (foldl (\<lambda>a b. a + b) 0 (intervalData st @ [intervalOr20 (ev_interval ev)]))
             (spmHistory st) = Inr (spm, hist)"
      using calculateSPM_Inr by blast
    show ?thesis
    proof (cases "NUM_DATA_PER_FRAME \<le> length (normData st) + 1")
      case True
      then show ?thesis
        using Some False c by (simp add: handleAcceleration_def Let_def)
    next
      case False
      then show ?thesis
        using Some \<open>acc_x acc \<noteq> None\<close> by (simp add: handleAcceleration_def Let_def)
    qed
  qed
qed

lemma updateSongBpm_keeps:
  "\<not> stores r \<Longrightarrow>
   updateSongBpm r st =
     Inr (st\<lparr>console := console st @
            (case r of Rejected \<Rightarrow> [FetchFailed] | Unparsable \<Rightarrow> [SyntaxError]
             | Parsed JNull \<Rightarrow> [TypeError] | Parsed b \<Rightarrow> [])\<rparr>)"
  by (simp add: updateSongBpm_def tryPoll_def stores_def split: response.splits body.splits)

lemma updateSongBpm_frame:
  "\<exists>st'. updateSongBpm r st = Inr st' \<and> spmHistory st' = spmHistory st
     \<and> normData st' = normData st \<and> intervalData st' = intervalData st"
  by (simp add: updateSongBpm_def tryPoll_def split: response.splits body.splits)

lemma handle_history:
  "handle e st = Inr st' \<Longrightarrow>
   spmHistory st' = spmHistory st \<or> (\<exists>raw. spmHistory st' = pushHistory raw (spmHistory st))"
proof (cases e)
  case (Motion ev)
  assume h: "handle e st = Inr st'"
  from handleAcceleration_cases [of ev st] show ?thesis
  proof (elim disjE exE conjE)
    assume "handleAcceleration ev st = Inr st"
    then show ?thesis using h Motion by (simp add: handle_def)
  next
    fix acc
    assume "handleAcceleration ev st =
            Inr (st\<lparr>normData := normData st @ [accelNorm acc],
                    intervalData := intervalData st @ [intervalOr20 (ev_interval ev)]\<rparr>)"
    then show ?thesis using h Motion by (auto simp: handle_def)
  next
    fix acc spm hist
    assume c: "calculateSPM (normData st @ [accelNorm acc])
             (foldl (\<lambda>a b. a + b) 0 (intervalData st @ [intervalOr20 (ev_interval ev)]))
             (spmHistory st) = Inr (spm, hist)"
      and r: "handleAcceleration ev st =
            Inr ((updateSyncDisplay spm
                    (st\<lparr>normData := normData st @ [accelNorm acc],
                        intervalData := intervalData st @ [intervalOr20 (ev_interval ev)],
                        spmHistory := hist\<rparr>))
                 \<lparr>normData := [], intervalData := []\<rparr>)"
    from r h Motion have "spmHistory st' = hist"
      by (auto simp: handle_def)
    moreover from c calculateSPM_Inr [of "normData st @ [accelNorm acc]"
        "foldl (\<lambda>a b. a + b) 0 (intervalData st @ [intervalOr20 (ev_interval ev)])" "spmHistory st"]
    have "hist = spmHistory st \<or> (\<exists>raw. hist = pushHistory raw (spmHistory st))"
      by (auto split: if_splits)
    ultimately show ?thesis by simp
  qed
next
  case (Poll r)
  assume "handle e st = Inr st'"
  then show ?thesis
    using Poll updateSongBpm_frame [of r st] by (auto simp: handle_def)
qed

lemma handle_Inr: "\<exists>st'. handle e st = Inr st'"
proof (cases e)
  case (Motion ev)
  then show ?thesis
    using handleAcceleration_cases [of ev st] by (auto simp: handle_def)
next
  case (Poll r)
  then show ?thesis
    using updateSongBpm_frame [of r st] by (auto simp: handle_def)
qed

lemma run_history_bounded:
  "length (spmHistory st) \<le> 3 \<Longrightarrow> \<exists>st'. run es st = Inr st' \<and> length (spmHistory st') \<le> 3"
proof (induction es arbitrary: st)
  case Nil
  then show ?case by simp
next
  case (Cons e es)
  obtain st1 where h: "handle e st = Inr st1"
    using handle_Inr by blast
  from handle_history [OF h] Cons.prems have "length (spmHistory st1) \<le> 3"
    by (auto simp: length_pushHistory)
  from Cons.IH [OF this] h show ?case by simp
qed

section \<open>The history (claims C3, C5 and C6)\<close>

lemma last_pushHistory: "last (pushHistory raw hist) = raw"
proof -
  have "tl (hist @ [raw]) \<noteq> [] \<Longrightarrow> last (tl (hist @ [raw])) = raw"
    by (simp add: last_tl)
  moreover have "3 < length (hist @ [raw]) \<Longrightarrow> tl (hist @ [raw]) \<noteq> []"
    by (cases hist) simp_all
  ultimately show ?thesis
    by (simp add: pushHistory_def Let_def)
qed

lemma pushHistory_short: "length hist < 3 \<Longrightarrow> pushHistory raw hist = hist @ [raw]"
  by (simp add: pushHistory_def Let_def)

lemma pushHistory_full: "length hist = 3 \<Longrightarrow> pushHistory raw hist = tl hist @ [raw]"
  by (cases hist) (simp_all add: pushHistory_def Let_def)

text \<open>
  Claim C3, as the specification states it: a raw cadence of 0 is never pushed. It fails
  on the frame of 160 samples 5 and 40 samples 0 (mean 4, variance 4, threshold 5.4): the
  frame is not stationary, no sample is above the threshold, the raw cadence is 0 and it
  is pushed into the empty history.
\<close>

theorem C3_zero_cadence_pushed_counterexample:
  "length (replicate 160 5 @ replicate 40 0 :: real list) = 200
   \<and> \<not> variance (replicate 160 5 @ replicate 40 0) < 1 / 10
   \<and> rawSpm (countSteps (replicate 160 5 @ replicate 40 0)) 4000 = Fin 0
   \<and> calculateSPM (replicate 160 5 @ replicate 40 0) 4000 [] = Inr (Fin 0, [Fin 0])"
  by (simp add: variance_dips countSteps_dips calculateSPM_def rawSpm_def smoothSpm_def
      pushHistory_def reduce1_def)

text \<open>
  Claim C3, amended: a value is appended to the history exactly when the frame is not
  stationary, that is when the variance that the code computes is not below 0.1, and the
  value is the frame's raw cadence whatever it is, 0 included; a stationary frame returns
  0 and appends nothing.
\<close>

theorem C3_pushed_iff_not_stationary:
  assumes "data \<noteq> []"
  shows "(variance data < 1 / 10 \<longrightarrow> calculateSPM data durationMs hist = Inr (Fin 0, hist))
    \<and> (\<not> variance data < 1 / 10 \<longrightarrow>
         (\<exists>r. calculateSPM data durationMs hist =
                 Inr (r, pushHistory (rawSpm (countSteps data) durationMs) hist))
         \<and> last (pushHistory (rawSpm (countSteps data) durationMs) hist) =
             rawSpm (countSteps data) durationMs)"
  using assms calculateSPM_Inr [of data durationMs hist]
    last_pushHistory [of "rawSpm (countSteps data) durationMs" hist]
  by (auto simp: calculateSPM_def)

text \<open>
  The amended claim on the same frame, 4 seconds long, with one entry in the history (the
  raw cadence 0 is appended), and on the frame of 100 samples 1 and 100 samples 1.2
  (variance 0.01), which appends nothing.
\<close>

theorem C3_pushed_iff_not_stationary_witness:
  "replicate 160 5 @ replicate 40 0 \<noteq> ([] :: real list)
   \<and> \<not> variance (replicate 160 5 @ replicate 40 0) < 1 / 10
   \<and> rawSpm (countSteps (replicate 160 5 @ replicate 40 0)) 4000 = Fin 0
   \<and> map_sum id snd (calculateSPM (replicate 160 5 @ replicate 40 0) 4000 [Fin 100]) =
       Inr [Fin 100, Fin 0]
   \<and> variance (replicate 100 1 @ replicate 100 (6 / 5)) < 1 / 10
   \<and> calculateSPM (replicate 100 1 @ replicate 100 (6 / 5)) 4000 [Fin 100] =
       Inr (Fin 0, [Fin 100])"
proof -
  let ?F = "replicate 160 5 @ replicate 40 0 :: real list"
  let ?Q = "replicate 100 1 @ replicate 100 (6 / 5) :: real list"
  have n: "?F \<noteq> []"
    by simp
  have m: "?Q \<noteq> []"
    by simp
  have v: "\<not> variance ?F < 1 / 10"
    by (simp add: variance_dips)
  have q: "variance ?Q < 1 / 10"
    by (simp add: variance_still)
  have r: "rawSpm (countSteps ?F) 4000 = Fin 0"
    by (simp add: countSteps_dips rawSpm_def)
  from C3_pushed_iff_not_stationary [OF n, of 4000 "[Fin 100]", THEN conjunct2] v
  obtain res where "calculateSPM ?F 4000 [Fin 100] =
      Inr (res, pushHistory (rawSpm (countSteps ?F) 4000) [Fin 100])"
    by blast
  then have c: "map_sum id snd (calculateSPM ?F 4000 [Fin 100]) = Inr [Fin 100, Fin 0]"
    by (simp add: r pushHistory_def)
  have s: "calculateSPM ?Q 4000 [Fin 100] = Inr (Fin 0, [Fin 100])"
    using C3_pushed_iff_not_stationary [OF m, of 4000 "[Fin 100]", THEN conjunct1] q by blast
  show ?thesis
    using n v r c q s by (intro conjI)
qed

lemma pushHistory_window:
  "length hist \<le> 3 \<Longrightarrow> pushHistory raw hist = drop (length (hist @ [raw]) - 3) (hist @ [raw])"
proof (cases "length hist = 3")
  case True
  then obtain a rest where "hist = a # rest"
    by (cases hist) auto
  then show ?thesis using True by (simp add: pushHistory_def Let_def)
next
  case False
  assume "length hist \<le> 3"
  with False show ?thesis by (simp add: pushHistory_def Let_def)
qed

lemma pushes_window:
  "length hist \<le> 3 \<Longrightarrow>
   foldl (\<lambda>h v. pushHistory v h) hist vs = drop (length (hist @ vs) - 3) (hist @ vs)"
proof (induction vs arbitrary: hist)
  case Nil
  then show ?case by simp
next
  case (Cons v vs)
  let ?k = "length (hist @ [v]) - 3"
  have p: "pushHistory v hist = drop ?k (hist @ [v])"
    using Cons.prems by (rule pushHistory_window)
  have l: "length (pushHistory v hist) \<le> 3"
    using Cons.prems by (rule length_pushHistory)
  have "foldl (\<lambda>h v. pushHistory v h) (pushHistory v hist) vs =
      drop (length (pushHistory v hist @ vs) - 3) (pushHistory v hist @ vs)"
    using l by (rule Cons.IH)
  also have "\<dots> = drop (length (hist @ v # vs) - 3) (hist @ v # vs)"
  proof (cases "length hist = 3")
    case True
    then obtain a rest where c: "hist = a # rest"
      by (cases hist) auto
    then have "pushHistory v hist = rest @ [v]"
      using p True by simp
    then show ?thesis using True c by simp
  next
    case False
    then have "pushHistory v hist = hist @ [v]"
      using Cons.prems by (simp add: pushHistory_short)
    then show ?thesis by simp
  qed
  finally show ?case by simp
qed

text \<open>
  Claim C5: whatever events are handled from the initial state, no handler raises and the
  history holds at most 3 entries afterwards; a push onto fewer than 3 entries appends,
  a push onto 3 entries drops the oldest and appends, and pushing any sequence of values
  into the empty history leaves its last three.
\<close>

theorem C5_history_at_most_three:
  "(\<exists>st. run es (initial p) = Inr st \<and> length (spmHistory st) \<le> 3)
   \<and> (length hist \<le> 3 \<longrightarrow> length (pushHistory raw hist) \<le> 3)
   \<and> (length hist < 3 \<longrightarrow> pushHistory raw hist = hist @ [raw])
   \<and> (length hist = 3 \<longrightarrow> pushHistory raw hist = tl hist @ [raw])
   \<and> foldl (\<lambda>h v. pushHistory v h) [] vs = drop (length vs - 3) vs"
  using run_history_bounded [of "initial p" es] pushes_window [of "[]" vs]
  by (simp add: initial_def length_pushHistory pushHistory_short pushHistory_full)

text \<open>
  Claim C5 on the histories of 3 and of 2 entries, and on the pushes of 100, 110, 90 and
  120 into the empty history.
\<close>

theorem C5_history_at_most_three_witness:
  "length [Fin 100, Fin 110, Fin 90] = 3
   \<and> pushHistory (Fin 120) [Fin 100, Fin 110, Fin 90] = [Fin 110, Fin 90, Fin 120]
   \<and> length [Fin 100, Fin 110] < 3
   \<and> pushHistory (Fin 90) [Fin 100, Fin 110] = [Fin 100, Fin 110, Fin 90]
   \<and> length (pushHistory (Fin 120) [Fin 100, Fin 110, Fin 90]) \<le> 3
   \<and> foldl (\<lambda>h v. pushHistory v h) [] [Fin 100, Fin 110, Fin 90, Fin 120] =
       [Fin 110, Fin 90, Fin 120]"
  using C5_history_at_most_three [of "[]" p "[Fin 100, Fin 110, Fin 90]" "Fin 120"
      "[Fin 100, Fin 110, Fin 90, Fin 120]"]
    C5_history_at_most_three [of "[]" p "[Fin 100, Fin 110]" "Fin 90" "[]"]
  by simp

text \<open>
  Claim C6: a push of a finite raw cadence onto a history of finite values returns the
  rounded mean of the history after the push (after the eviction, when there is one).
  Pushing 100, 110 and 90 into the empty history returns 100 at the third push, and
  pushing 120 then drops 100 and returns 107.
\<close>

theorem C6_smoother_rounded_mean:
  "smoothSpm (Fin v) (map Fin vs) =
     (let ws = (if length (vs @ [v]) > 3 then tl (vs @ [v]) else vs @ [v])
      in Inr (Fin (of_int (round (sum_list ws / real (length ws)))), map Fin ws))
   \<and> smoothSpm (Fin 100) [] = Inr (Fin 100, [Fin 100])
   \<and> smoothSpm (Fin 110) [Fin 100] = Inr (Fin 105, [Fin 100, Fin 110])
   \<and> smoothSpm (Fin 90) [Fin 100, Fin 110] = Inr (Fin 100, [Fin 100, Fin 110, Fin 90])
   \<and> smoothSpm (Fin 120) [Fin 100, Fin 110, Fin 90] = Inr (Fin 107, [Fin 110, Fin 90, Fin 120])"
proof -
  define ws where "ws = (if length (vs @ [v]) > 3 then tl (vs @ [v]) else vs @ [v])"
  have p: "pushHistory (Fin v) (map Fin vs) = map Fin ws"
    by (simp add: pushHistory_def ws_def Let_def map_tl)
  have n: "ws \<noteq> []"
    using pushHistory_not_Nil [of "Fin v" "map Fin vs"] unfolding p by simp
  then obtain w rest where c: "ws = w # rest"
    by (cases ws) auto
  have "smoothSpm (Fin v) (map Fin vs) =
      Inr (Fin (of_int (round (sum_list ws / real (length ws)))), map Fin ws)"
    by (simp add: smoothSpm_def p c reduce1_def foldl_jadd_Fin)
  moreover have "smoothSpm (Fin 100) [] = Inr (Fin 100, [Fin 100])"
    by (simp add: smoothSpm_def pushHistory_def reduce1_def)
  moreover have "smoothSpm (Fin 110) [Fin 100] = Inr (Fin 105, [Fin 100, Fin 110])"
    by (simp add: smoothSpm_def pushHistory_def reduce1_def)
  moreover have "smoothSpm (Fin 90) [Fin 100, Fin 110] =
      Inr (Fin 100, [Fin 100, Fin 110, Fin 90])"
    by (simp add: smoothSpm_def pushHistory_def reduce1_def)
  moreover have "smoothSpm (Fin 120) [Fin 100, Fin 110, Fin 90] =
      Inr (Fin 107, [Fin 110, Fin 90, Fin 120])"
  proof -
    have "round (320 / 3 :: real) = 107"
      by (simp add: round_def floor_eq_iff)
    then show ?thesis
      by (simp add: smoothSpm_def pushHistory_def reduce1_def)
  qed
  ultimately show ?thesis
    unfolding ws_def Let_def by (intro conjI)
qed

section \<open>A frame of duration zero (claim C4)\<close>

lemma jadd_not_finite: "\<not> finite_num a \<or> \<not> finite_num b \<Longrightarrow> \<not> finite_num (jadd a b)"
  by (cases a; cases b) (simp_all add: finite_num_def)

lemma foldl_jadd_not_finite_acc: "\<not> finite_num a \<Longrightarrow> \<not> finite_num (foldl jadd a xs)"
  by (induction xs arbitrary: a) (simp_all add: jadd_not_finite)

lemma foldl_jadd_not_finite:
  "\<exists>x\<in>set (a # xs). \<not> finite_num x \<Longrightarrow> \<not> finite_num (foldl jadd a xs)"
proof (induction xs arbitrary: a)
  case Nil
  then show ?case by simp
next
  case (Cons x xs)
  show ?case
  proof (cases "finite_num a \<and> finite_num x")
    case True
    then obtain r where "jadd a x = Fin r"
      by (cases a; cases x) (simp_all add: finite_num_def)
    with Cons.prems True have "\<exists>y\<in>set (jadd a x # xs). \<not> finite_num y"
      by auto
    from Cons.IH [OF this] show ?thesis by simp
  next
    case False
    then have "\<not> finite_num (jadd a x)"
      by (intro jadd_not_finite) auto
    then show ?thesis
      by (simp add: foldl_jadd_not_finite_acc)
  qed
qed

lemma jdiv_not_finite: "\<not> finite_num a \<Longrightarrow> 0 < n \<Longrightarrow> \<not> finite_num (jround (jdiv a (Fin n)))"
  by (cases a) (simp_all add: finite_num_def inf_of_sign_def)

lemma smoothSpm_not_finite:
  assumes "\<not> finite_num raw"
  shows "\<exists>r. smoothSpm raw hist = Inr (r, pushHistory raw hist) \<and> \<not> finite_num r"
proof -
  let ?h = "pushHistory raw hist"
  have ne: "?h \<noteq> []"
    by (rule pushHistory_not_Nil)
  then have "raw \<in> set ?h"
    using last_pushHistory [of raw hist] last_in_set [of ?h] by simp
  then have "\<exists>x\<in>set (hd ?h # tl ?h). \<not> finite_num x"
    using assms ne by auto
  then have "\<not> finite_num (foldl jadd (hd ?h) (tl ?h))"
    by (rule foldl_jadd_not_finite)
  moreover have "0 < real (length ?h)"
    using ne by simp
  ultimately have "\<not> finite_num (jround (jdiv (foldl jadd (hd ?h) (tl ?h)) (Fin (real (length ?h)))))"
    by (rule jdiv_not_finite)
  then show ?thesis
    by (simp add: smoothSpm_Inr)
qed

text \<open>
  Claim C4, as the specification states it: a frame of duration 0 gives no cadence
  estimate and no division by zero. It fails on the frame that alternates
  \<open>0, 2, 0, 2, \<dots>\<close> with \<^verbatim>\<open>durationMs = 0\<close>: 100 steps over 0 seconds are \<^verbatim>\<open>Infinity\<close>,
  which is pushed into the history and returned.
\<close>

theorem C4_zero_duration_counterexample:
  "\<not> variance (0 # 2 # concat (replicate 99 [0, 2])) < 1 / 10
   \<and> rawSpm (countSteps (0 # 2 # concat (replicate 99 [0, 2]))) 0 = PInf
   \<and> calculateSPM (0 # 2 # concat (replicate 99 [0, 2])) 0 [] = Inr (PInf, [PInf])"
  by (simp add: variance_down_up countSteps_down_up calculateSPM_def rawSpm_def smoothSpm_def
      pushHistory_def reduce1_def inf_of_sign_def)

text \<open>
  Claim C4, amended: \<^verbatim>\<open>calculateSPM\<close> has no guard on the duration. With
  \<^verbatim>\<open>durationMs = 0\<close> a stationary frame returns 0 before the division; a non-stationary
  frame is divided by zero, its raw cadence is \<^verbatim>\<open>NaN\<close> when no step was counted and
  \<^verbatim>\<open>Infinity\<close> otherwise, that value is pushed into the history and the returned cadence
  is not a finite number.
\<close>

theorem C4_zero_duration_divides:
  "(data \<noteq> [] \<and> \<not> variance data < 1 / 10 \<longrightarrow>
      rawSpm (countSteps data) 0 = (if countSteps data = 0 then NaN else PInf)
      \<and> (\<exists>r. calculateSPM data 0 hist = Inr (r, pushHistory (rawSpm (countSteps data) 0) hist)
            \<and> \<not> finite_num r))
   \<and> (data \<noteq> [] \<and> variance data < 1 / 10 \<longrightarrow> calculateSPM data 0 hist = Inr (Fin 0, hist))"
proof -
  have a: "data \<noteq> [] \<and> \<not> variance data < 1 / 10 \<longrightarrow>
      rawSpm (countSteps data) 0 = (if countSteps data = 0 then NaN else PInf)
      \<and> (\<exists>r. calculateSPM data 0 hist = Inr (r, pushHistory (rawSpm (countSteps data) 0) hist)
            \<and> \<not> finite_num r)"
  proof (intro impI conjI)
    show "rawSpm (countSteps data) 0 = (if countSteps data = 0 then NaN else PInf)"
      by (rule rawSpm_zero_duration)
    then have "\<not> finite_num (rawSpm (countSteps data) 0)"
      by (simp add: finite_num_def)
    moreover assume "data \<noteq> [] \<and> \<not> variance data < 1 / 10"
    ultimately show "\<exists>r. calculateSPM data 0 hist =
        Inr (r, pushHistory (rawSpm (countSteps data) 0) hist) \<and> \<not> finite_num r"
      using smoothSpm_not_finite [of "rawSpm (countSteps data) 0" hist]
      by (simp add: calculateSPM_def)
  qed
  have b: "data \<noteq> [] \<and> variance data < 1 / 10 \<longrightarrow> calculateSPM data 0 hist = Inr (Fin 0, hist)"
    by (simp add: calculateSPM_def)
  show ?thesis using a b by (intro conjI)
qed

text \<open>
  The amended claim at duration 0 on the frame of one sample 100 and 199 samples 0 (no
  step: \<^verbatim>\<open>NaN\<close> is pushed) and on the stationary frame of 100 samples 1 and 100 samples
  1.2.
\<close>

theorem C4_zero_duration_divides_witness:
  "\<not> variance (100 # replicate 199 0) < 1 / 10
   \<and> rawSpm (countSteps (100 # replicate 199 0)) 0 = NaN
   \<and> map_sum id snd (calculateSPM (100 # replicate 199 0) 0 [Fin 100]) = Inr [Fin 100, NaN]
   \<and> variance (replicate 100 1 @ replicate 100 (6 / 5)) < 1 / 10
   \<and> calculateSPM (replicate 100 1 @ replicate 100 (6 / 5)) 0 [Fin 100] = Inr (Fin 0, [Fin 100])"
proof -
  let ?S = "100 # replicate 199 0 :: real list"
  let ?Q = "replicate 100 1 @ replicate 100 (6 / 5) :: real list"
  have v: "\<not> variance ?S < 1 / 10"
    by (simp add: variance_spike)
  have q: "variance ?Q < 1 / 10"
    by (simp add: variance_still)
  note main = C4_zero_duration_divides [of ?S "[Fin 100]"]
  note still = C4_zero_duration_divides [of ?Q "[Fin 100]"]
  have n: "rawSpm (countSteps ?S) 0 = NaN"
    using main [THEN conjunct1] v by (simp add: countSteps_spike)
  obtain res where "calculateSPM ?S 0 [Fin 100] = Inr (res, pushHistory (rawSpm (countSteps ?S) 0) [Fin 100])"
    using main [THEN conjunct1] v by auto
  then have c: "map_sum id snd (calculateSPM ?S 0 [Fin 100]) = Inr [Fin 100, NaN]"
    by (simp add: n pushHistory_def)
  have s: "calculateSPM ?Q 0 [Fin 100] = Inr (Fin 0, [Fin 100])"
    using still [THEN conjunct2] q by simp
  show ?thesis
    using v n c q s by (intro conjI)
qed

section \<open>The sync score (claims C7 and C8)\<close>

lemma syncRate_finite:
  "0 < c \<Longrightarrow> 0 < t \<Longrightarrow> syncRate (Fin c) (Fin t) = Some (Fin (max 0 (100 - \<bar>c - t\<bar>)))"
  by (simp add: syncRate_def jsub_def jmax_def max_def)

lemma syncRate_infinite: "0 < t \<Longrightarrow> syncRate PInf (Fin t) = Some (Fin 0)"
  by (simp add: syncRate_def jsub_def jmax_def)

lemma updateSyncDisplay_rate:
  "syncRate spm (toNumber (currentSongBpm st)) = Some rate \<Longrightarrow>
   sync_rate (document (updateSyncDisplay spm st)) =
     map_option (\<lambda>old. Percent (jround rate)) (sync_rate (document st))
   \<and> sync_circle (document (updateSyncDisplay spm st)) =
     map_option (\<lambda>old. if jgt rate (Fin 90) then ''#1DB954'' else ''#333'') (sync_circle (document st))
   \<and> current_spm (document (updateSyncDisplay spm st)) =
     map_option (\<lambda>old. Number spm) (current_spm (document st))"
  by (auto simp: updateSyncDisplay_def Let_def split: option.splits)

text \<open>
  Claim C7: for a finite cadence above 0 and a tempo above 0 the sync rate is
  \<open>max 0 (100 - \<bar>cadence - tempo\<bar>)\<close>, between 0 and 100, and the sync element (if the page
  has it) shows its rounding followed by \<^verbatim>\<open>%\<close>; for the cadence \<^verbatim>\<open>Infinity\<close> it is 0.
  Cadence 120 at tempo 120 gives 100, cadence 150 at tempo 120 gives 70.
\<close>

theorem C7_sync_score:
  assumes "0 < cadence" and "0 < tempo"
  shows "syncRate (Fin cadence) (Fin tempo) = Some (Fin (max 0 (100 - \<bar>cadence - tempo\<bar>)))
    \<and> 0 \<le> max 0 (100 - \<bar>cadence - tempo\<bar>) \<and> max 0 (100 - \<bar>cadence - tempo\<bar>) \<le> 100
    \<and> (toNumber (currentSongBpm st) = Fin tempo \<longrightarrow>
         sync_rate (document (updateSyncDisplay (Fin cadence) st)) =
           map_option (\<lambda>old. Percent (Fin (of_int (round (max 0 (100 - \<bar>cadence - tempo\<bar>))))))
             (sync_rate (document st)))
    \<and> syncRate PInf (Fin tempo) = Some (Fin 0)
    \<and> syncRate (Fin 120) (Fin 120) = Some (Fin 100)
    \<and> syncRate (Fin 150) (Fin 120) = Some (Fin 70)"
proof -
  have a: "syncRate (Fin cadence) (Fin tempo) = Some (Fin (max 0 (100 - \<bar>cadence - tempo\<bar>)))"
    using assms by (rule syncRate_finite)
  have b: "0 \<le> max 0 (100 - \<bar>cadence - tempo\<bar>) \<and> max 0 (100 - \<bar>cadence - tempo\<bar>) \<le> 100"
    by simp
  have c: "toNumber (currentSongBpm st) = Fin tempo \<longrightarrow>
         sync_rate (document (updateSyncDisplay (Fin cadence) st)) =
           map_option (\<lambda>old. Percent (Fin (of_int (round (max 0 (100 - \<bar>cadence - tempo\<bar>))))))
             (sync_rate (document st))"
    using updateSyncDisplay_rate [of "Fin cadence" st] a by auto
  have d: "syncRate PInf (Fin tempo) = Some (Fin 0)"
    using assms(2) by (rule syncRate_infinite)
  have e: "syncRate (Fin 120) (Fin 120) = Some (Fin 100)"
    "syncRate (Fin 150) (Fin 120) = Some (Fin 70)"
    by (simp_all add: syncRate_finite)
  show ?thesis using a b c d e by (intro conjI) simp_all
qed

text \<open>
  Claim C7 at cadence 150 and tempo 120, on a page that shows the score of an earlier tick.
\<close>

theorem C7_sync_score_witness:
  "(0::real) < 150 \<and> (0::real) < 120
   \<and> syncRate (Fin 150) (Fin 120) = Some (Fin 70)
   \<and> sync_rate (document (updateSyncDisplay (Fin 150)
        \<lparr>normData = [], intervalData = [], spmHistory = [Fin 150],
         currentSongBpm = Num (Fin 120),
         document = \<lparr>bpm_val = Some (Number (Fin 120)), current_spm = Some (Number (Fin 118)),
                sync_rate = Some (Percent (Fin 98)), sync_circle = Some ''#1DB954''\<rparr>,
         console = []\<rparr>))
       = Some (Percent (Fin 70))"
proof -
  let ?st = "\<lparr>normData = [], intervalData = [], spmHistory = [Fin 150],
         currentSongBpm = Num (Fin 120),
         document = \<lparr>bpm_val = Some (Number (Fin 120)), current_spm = Some (Number (Fin 118)),
                sync_rate = Some (Percent (Fin 98)), sync_circle = Some ''#1DB954''\<rparr>,
         console = []\<rparr>"
  have p: "(0::real) < 150" "(0::real) < 120"
    by simp_all
  note main = C7_sync_score [OF p, of ?st]
  have a: "syncRate (Fin 150) (Fin 120) = Some (Fin 70)"
    using main [THEN conjunct1] by simp
  have "sync_rate (document (updateSyncDisplay (Fin 150) ?st)) =
      map_option (\<lambda>old. Percent (Fin (of_int (round (max 0 (100 - \<bar>150 - 120 :: real\<bar>))))))
        (sync_rate (document ?st))"
    using main [THEN conjunct2, THEN conjunct2, THEN conjunct2, THEN conjunct1] by simp
  then have b: "sync_rate (document (updateSyncDisplay (Fin 150) ?st)) = Some (Percent (Fin 70))"
    by simp
  show ?thesis using p a b by (intro conjI)
qed

lemma syncRate_no_tempo: "syncRate spm (Fin 0) = None"
  by (simp add: syncRate_def)

lemma updateSyncDisplay_only_cadence:
  "syncRate spm (toNumber (currentSongBpm st)) = None \<Longrightarrow>
   updateSyncDisplay spm st =
     st\<lparr>document := (document st)\<lparr>current_spm :=
            map_option (\<lambda>old. Number spm) (current_spm (document st))\<rparr>\<rparr>"
  by (cases "current_spm (document st)") (simp_all add: updateSyncDisplay_no_rate)

lemma handle_no_tempo:
  assumes "handle e st = Inr st'" and "bringsNoTempo e" and "currentSongBpm st = Num (Fin 0)"
  shows "currentSongBpm st' = Num (Fin 0) \<and> sync_rate (document st') = sync_rate (document st)
    \<and> sync_circle (document st') = sync_circle (document st)"
proof (cases e)
  case (Motion ev)
  have n: "\<And>spm s. currentSongBpm s = Num (Fin 0) \<Longrightarrow>
      updateSyncDisplay spm s =
        s\<lparr>document := (document s)\<lparr>current_spm :=
             map_option (\<lambda>old. Number spm) (current_spm (document s))\<rparr>\<rparr>"
    by (rule updateSyncDisplay_only_cadence) (simp add: syncRate_no_tempo)
  from handleAcceleration_cases [of ev st] show ?thesis
  proof (elim disjE exE conjE)
    assume "handleAcceleration ev st = Inr st"
    then show ?thesis using assms Motion by (simp add: handle_def)
  next
    fix acc
    assume "handleAcceleration ev st =
            Inr (st\<lparr>normData := normData st @ [accelNorm acc],
                    intervalData := intervalData st @ [intervalOr20 (ev_interval ev)]\<rparr>)"
    then show ?thesis using assms Motion by (auto simp: handle_def)
  next
    fix acc spm hist
    assume r: "handleAcceleration ev st =
            Inr ((updateSyncDisplay spm
                    (st\<lparr>normData := normData st @ [accelNorm acc],
                        intervalData := intervalData st @ [intervalOr20 (ev_interval ev)],
                        spmHistory := hist\<rparr>))
                 \<lparr>normData := [], intervalData := []\<rparr>)"
    have "currentSongBpm (st\<lparr>normData := normData st @ [accelNorm acc],
                        intervalData := intervalData st @ [intervalOr20 (ev_interval ev)],
                        spmHistory := hist\<rparr>) = Num (Fin 0)"
      using assms(3) by simp
    from n [OF this, of spm] r assms Motion show ?thesis
      by (auto simp: handle_def)
  qed
next
  case (Poll r)
  then show ?thesis
    using assms updateSongBpm_keeps [of r st] by (auto simp: handle_def bringsNoTempo_def)
qed

lemma run_no_tempo:
  assumes "run es st = Inr st'" and "\<forall>e\<in>set es. bringsNoTempo e"
    and "currentSongBpm st = Num (Fin 0)"
  shows "currentSongBpm st' = Num (Fin 0) \<and> sync_rate (document st') = sync_rate (document st)
    \<and> sync_circle (document st') = sync_circle (document st)"
  using assms
proof (induction es arbitrary: st)
  case Nil
  then show ?case by simp
next
  case (Cons e es)
  obtain st1 where h: "handle e st = Inr st1"
    using handle_Inr by blast
  with Cons.prems(1) have r: "run es st1 = Inr st'"
    by simp
  from handle_no_tempo [OF h] Cons.prems
  have k: "currentSongBpm st1 = Num (Fin 0) \<and> sync_rate (document st1) = sync_rate (document st)
    \<and> sync_circle (document st1) = sync_circle (document st)"
    by simp
  with Cons.IH [OF r] Cons.prems(2) show ?case by simp
qed

lemma run_append:
  "run (es1 @ es2) st = (case run es1 st of Inl err \<Rightarrow> Inl err | Inr st' \<Rightarrow> run es2 st')"
  by (induction es1 arbitrary: st) (simp_all split: sum.splits)

lemma run_buffering:
  assumes "\<forall>ev\<in>set evs. \<exists>acc. ev_acceleration ev = Some acc \<and> acc_x acc \<noteq> None"
    and "length (normData st) + length evs < NUM_DATA_PER_FRAME"
  shows "run (map Motion evs) st =
    Inr (st\<lparr>normData := normData st @ map (\<lambda>ev. accelNorm (the (ev_acceleration ev))) evs,
            intervalData := intervalData st @ map (\<lambda>ev. intervalOr20 (ev_interval ev)) evs\<rparr>)"
  using assms
proof (induction evs arbitrary: st)
  case Nil
  then show ?case by simp
next
  case (Cons ev evs)
  then obtain acc where a: "ev_acceleration ev = Some acc" "acc_x acc \<noteq> None"
    by auto
  let ?st1 = "st\<lparr>normData := normData st @ [accelNorm acc],
                 intervalData := intervalData st @ [intervalOr20 (ev_interval ev)]\<rparr>"
  have h: "handle (Motion ev) st = Inr ?st1"
    using a Cons.prems(2) by (auto simp: handle_def handleAcceleration_def Let_def)
  have "run (map Motion evs) ?st1 =
    Inr (?st1\<lparr>normData := normData ?st1 @ map (\<lambda>ev. accelNorm (the (ev_acceleration ev))) evs,
            intervalData := intervalData ?st1 @ map (\<lambda>ev. intervalOr20 (ev_interval ev)) evs\<rparr>)"
    using Cons.prems by (intro Cons.IH) simp_all
  then show ?case
    using h a by simp
qed

lemma concat_replicate_snoc2:
  "concat (replicate 98 [a, b]) @ [a] @ [b] = concat (replicate 99 [a, b])"
proof -
  have "replicate 99 [a, b] = replicate 98 [a, b] @ replicate 1 [a, b]"
    using replicate_add [of 98 1 "[a, b]"] by simp
  then show ?thesis by simp
qed

lemma calculateSPM_down_up:
  "calculateSPM (0 # 2 # concat (replicate 99 [0, 2])) 4000 [] = Inr (Fin 1500, [Fin 1500])"
  by (simp add: calculateSPM_def variance_down_up countSteps_down_up rawSpm_def smoothSpm_def
      pushHistory_def reduce1_def)


lemma concat_replicate_snoc2': "concat (replicate 98 [a, b]) @ [a, b] = concat (replicate 99 [a, b])"
  using concat_replicate_snoc2 [of a b] by simp

lemma handleAcceleration_frame:
  assumes "ev_acceleration ev = Some acc" and "acc_x acc \<noteq> None"
    and "NUM_DATA_PER_FRAME \<le> length (normData st) + 1"
    and "calculateSPM (normData st @ [accelNorm acc])
           (foldl (\<lambda>a b. a + b) 0 (intervalData st @ [intervalOr20 (ev_interval ev)]))
           (spmHistory st) = Inr (spm, hist)"
  shows "handleAcceleration ev st =
     Inr ((updateSyncDisplay spm
             (st\<lparr>normData := normData st @ [accelNorm acc],
                 intervalData := intervalData st @ [intervalOr20 (ev_interval ev)],
                 spmHistory := hist\<rparr>))
          \<lparr>normData := [], intervalData := []\<rparr>)"
  using assms by (auto simp: handleAcceleration_def Let_def)

lemma handleAcceleration_completes:
  assumes "normData st = 0 # 2 # concat (replicate 98 [0, 2]) @ [0]"
    and "sum_list (intervalData st) = 3980"
    and "spmHistory st = []"
    and "currentSongBpm st = Num (Fin 0)"
  shows "handleAcceleration
           \<lparr>ev_acceleration = Some (Acceleration (Some 2) (Some 0) None), ev_interval = Some 20\<rparr> st =
         Inr (st\<lparr>normData := [], intervalData := [], spmHistory := [Fin 1500],
                 document := (document st)\<lparr>current_spm :=
                    map_option (\<lambda>old. Number (Fin 1500)) (current_spm (document st))\<rparr>\<rparr>)"
proof -
  let ?acc = "Acceleration (Some 2) (Some 0) None"
  let ?ev = "\<lparr>ev_acceleration = Some ?acc, ev_interval = Some 20\<rparr>"
  have n: "accelNorm ?acc = 2"
    by (simp add: accelNorm_def sq_def)
  have f: "normData st @ [accelNorm ?acc] = 0 # 2 # concat (replicate 99 [0, 2])"
    by (simp add: assms(1) n concat_replicate_snoc2')
  have l: "NUM_DATA_PER_FRAME \<le> length (normData st) + 1"
    by (simp add: assms(1) NUM_DATA_PER_FRAME_def length_concat_replicate)
  have d: "foldl (\<lambda>a b. a + b) 0 (intervalData st @ [intervalOr20 (ev_interval ?ev)]) = 4000"
    by (simp add: assms(2) foldl_plus_sum [of "\<lambda>b. b" 0, simplified] intervalOr20_def)
  have c: "calculateSPM (normData st @ [accelNorm ?acc])
           (foldl (\<lambda>a b. a + b) 0 (intervalData st @ [intervalOr20 (ev_interval ?ev)]))
           (spmHistory st) = Inr (Fin 1500, [Fin 1500])"
    unfolding f d assms(3) by (rule calculateSPM_down_up)
  let ?st1 = "st\<lparr>normData := normData st @ [accelNorm ?acc],
                 intervalData := intervalData st @ [intervalOr20 (ev_interval ?ev)],
                 spmHistory := [Fin 1500]\<rparr>"
  have "syncRate (Fin 1500) (toNumber (currentSongBpm ?st1)) = None"
    by (simp add: assms(4) syncRate_no_tempo)
  then have u: "updateSyncDisplay (Fin 1500) ?st1 =
      ?st1\<lparr>document := (document ?st1)\<lparr>current_spm :=
            map_option (\<lambda>old. Number (Fin 1500)) (current_spm (document ?st1))\<rparr>\<rparr>"
    by (rule updateSyncDisplay_only_cadence)
  have "handleAcceleration ?ev st = Inr ((updateSyncDisplay (Fin 1500) ?st1)\<lparr>normData := [], intervalData := []\<rparr>)"
    by (rule handleAcceleration_frame [OF _ _ l c]) simp_all
  then show ?thesis
    unfolding u by simp
qed


lemma run_walking_frame:
  "run (map Motion
          (\<lparr>ev_acceleration = Some (Acceleration (Some 0) (Some 0) (Some 0)), ev_interval = None\<rparr>
           # \<lparr>ev_acceleration = Some (Acceleration (Some 2) (Some 0) None), ev_interval = Some 20\<rparr>
           # concat (replicate 98
               [\<lparr>ev_acceleration = Some (Acceleration (Some 0) (Some 0) (Some 0)),
                  ev_interval = None\<rparr>,
                \<lparr>ev_acceleration = Some (Acceleration (Some 2) (Some 0) None),
                  ev_interval = Some 20\<rparr>])
           @ [\<lparr>ev_acceleration = Some (Acceleration (Some 0) (Some 0) (Some 0)),
                ev_interval = None\<rparr>])
        @ [Motion \<lparr>ev_acceleration = Some (Acceleration (Some 2) (Some 0) None),
                   ev_interval = Some 20\<rparr>,
           Poll (Parsed JNoBpm)])
     (initial p) =
   Inr ((initial p)\<lparr>spmHistory := [Fin 1500],
          document := p\<lparr>current_spm := map_option (\<lambda>old. Number (Fin 1500)) (current_spm p)\<rparr>\<rparr>)"
proof -
  let ?e0 = "\<lparr>ev_acceleration = Some (Acceleration (Some 0) (Some 0) (Some 0)), ev_interval = None\<rparr>"
  let ?e2 = "\<lparr>ev_acceleration = Some (Acceleration (Some 2) (Some 0) None), ev_interval = Some 20\<rparr>"
  let ?evs = "?e0 # ?e2 # concat (replicate 98 [?e0, ?e2]) @ [?e0]"
  let ?st = "(initial p)\<lparr>
      normData := normData (initial p) @ map (\<lambda>ev. accelNorm (the (ev_acceleration ev))) ?evs,
      intervalData := intervalData (initial p) @ map (\<lambda>ev. intervalOr20 (ev_interval ev)) ?evs\<rparr>"
  have b: "run (map Motion ?evs) (initial p) = Inr ?st"
    by (rule run_buffering)
      (auto simp: initial_def NUM_DATA_PER_FRAME_def length_concat_replicate)
  have n: "normData ?st = 0 # 2 # concat (replicate 98 [0, 2]) @ [0]"
    by (simp add: initial_def map_concat accelNorm_def sq_def)
  have i: "sum_list (intervalData ?st) = 3980"
    by (simp add: initial_def map_concat intervalOr20_def sum_list_concat_replicate)
  have h: "handleAcceleration ?e2 ?st =
         Inr (?st\<lparr>normData := [], intervalData := [], spmHistory := [Fin 1500],
                 document := (document ?st)\<lparr>current_spm :=
                    map_option (\<lambda>old. Number (Fin 1500)) (current_spm (document ?st))\<rparr>\<rparr>)"
    by (rule handleAcceleration_completes [OF n i]) (simp_all add: initial_def)
  have k: "?st\<lparr>normData := [], intervalData := [], spmHistory := [Fin 1500],
                 document := (document ?st)\<lparr>current_spm :=
                    map_option (\<lambda>old. Number (Fin 1500)) (current_spm (document ?st))\<rparr>\<rparr>
     = (initial p)\<lparr>spmHistory := [Fin 1500],
          document := p\<lparr>current_spm := map_option (\<lambda>old. Number (Fin 1500)) (current_spm p)\<rparr>\<rparr>"
    by (simp add: initial_def)
  have q: "updateSongBpm (Parsed JNoBpm) st = Inr st" for st
    by (simp add: updateSongBpm_def tryPoll_def)
  have r2: "run [Motion ?e2, Poll (Parsed JNoBpm)] ?st =
      Inr ((initial p)\<lparr>spmHistory := [Fin 1500],
          document := p\<lparr>current_spm := map_option (\<lambda>old. Number (Fin 1500)) (current_spm p)\<rparr>\<rparr>)"
    by (simp only: run.simps handle_def event.case h k q sum.case)
  show ?thesis
    by (simp only: run_append b sum.case r2)
qed

text \<open>
  Claim C8, as the specification states it: with cadence 0 the resulting state has no
  score and no sync score is displayed for that tick. It fails on a page without score
  at tempo 120, after a tick of cadence 118 (which writes 98 percent and the green
  circle) and a tick of cadence 0: the cadence element shows 0, and the sync element and
  the circle still show 98 percent and green.
\<close>

theorem C8_stale_score_counterexample:
  "sync_rate (document (updateSyncDisplay (Fin 0) (updateSyncDisplay (Fin 118)
        \<lparr>normData = [], intervalData = [], spmHistory = [], currentSongBpm = Num (Fin 120),
         document = \<lparr>bpm_val = Some (Number (Fin 120)), current_spm = Some (Text ''0''),
                     sync_rate = Some (Text ''--''), sync_circle = Some ''#333''\<rparr>,
         console = []\<rparr>)))
     = Some (Percent (Fin 98))
   \<and> sync_circle (document (updateSyncDisplay (Fin 0) (updateSyncDisplay (Fin 118)
        \<lparr>normData = [], intervalData = [], spmHistory = [], currentSongBpm = Num (Fin 120),
         document = \<lparr>bpm_val = Some (Number (Fin 120)), current_spm = Some (Text ''0''),
                     sync_rate = Some (Text ''--''), sync_circle = Some ''#333''\<rparr>,
         console = []\<rparr>)))
     = Some ''#1DB954''
   \<and> current_spm (document (updateSyncDisplay (Fin 0) (updateSyncDisplay (Fin 118)
        \<lparr>normData = [], intervalData = [], spmHistory = [], currentSongBpm = Num (Fin 120),
         document = \<lparr>bpm_val = Some (Number (Fin 120)), current_spm = Some (Text ''0''),
                     sync_rate = Some (Text ''--''), sync_circle = Some ''#333''\<rparr>,
         console = []\<rparr>)))
     = Some (Number (Fin 0))"
  by (simp add: updateSyncDisplay_def syncRate_def jsub_def jmax_def)

text \<open>
  Claim C8, amended: when the stored tempo is still the initial 0 (never fetched) or the
  cadence is 0, no sync rate is computed and the call writes the cadence element only:
  the sync element and the circle are not cleared and keep what they showed before the
  call, so a score written by an earlier tick stays displayed. From the initial state,
  as long as no poll has stored a tempo, the tempo is 0 and the sync element and the
  circle still show what the page started with. Cadence 0 at tempo 120 gives no rate.
\<close>

theorem C8_no_score_computed_display_kept:
  assumes "currentSongBpm st = Num (Fin 0) \<or> spm = Fin 0"
  shows "syncRate spm (toNumber (currentSongBpm st)) = None
    \<and> updateSyncDisplay spm st =
        st\<lparr>document := (document st)\<lparr>current_spm :=
               map_option (\<lambda>old. Number spm) (current_spm (document st))\<rparr>\<rparr>
    \<and> sync_rate (document (updateSyncDisplay spm st)) = sync_rate (document st)
    \<and> sync_circle (document (updateSyncDisplay spm st)) = sync_circle (document st)
    \<and> syncRate (Fin 0) (Fin 120) = None
    \<and> currentSongBpm (initial p) = Num (Fin 0)
    \<and> (run es (initial p) = Inr st' \<and> (\<forall>e\<in>set es. bringsNoTempo e) \<longrightarrow>
         currentSongBpm st' = Num (Fin 0) \<and> sync_rate (document st') = sync_rate p
         \<and> sync_circle (document st') = sync_circle p)"
proof -
  have a: "syncRate spm (toNumber (currentSongBpm st)) = None"
    using assms by (auto simp: syncRate_def)
  then have b: "updateSyncDisplay spm st =
        st\<lparr>document := (document st)\<lparr>current_spm :=
               map_option (\<lambda>old. Number spm) (current_spm (document st))\<rparr>\<rparr>"
    by (rule updateSyncDisplay_only_cadence)
  have c: "sync_rate (document (updateSyncDisplay spm st)) = sync_rate (document st)"
    "sync_circle (document (updateSyncDisplay spm st)) = sync_circle (document st)"
    unfolding b by simp_all
  have d: "syncRate (Fin 0) (Fin 120) = None"
    by (rule syncRate_zero)
  have e: "currentSongBpm (initial p) = Num (Fin 0)"
    by (simp add: initial_def)
  have f: "run es (initial p) = Inr st' \<and> (\<forall>e\<in>set es. bringsNoTempo e) \<longrightarrow>
         currentSongBpm st' = Num (Fin 0) \<and> sync_rate (document st') = sync_rate p
         \<and> sync_circle (document st') = sync_circle p"
    using run_no_tempo [of es "initial p" st'] e by (auto simp: initial_def)
  show ?thesis using a b c d e f by (intro conjI)
qed

text \<open>
  The amended claim at cadence 0 and tempo 120 on a page that shows the score of an
  earlier tick, at cadence 100 in the initial state, and on a run from the initial state
  of 200 sensor events, whose magnitudes alternate 0 and 2, and a poll without
  \<^verbatim>\<open>bpm\<close>: the frame is completed, the cadence 1500 enters the history and is shown, and
  the sync element and the circle show what the page started with.
\<close>

theorem C8_no_score_computed_display_kept_witness:
  "syncRate (Fin 0) (Fin 120) = None
   \<and> map_option (\<lambda>s. (current_spm s, sync_rate s, sync_circle s))
       (Some (document (updateSyncDisplay (Fin 0)
        \<lparr>normData = [], intervalData = [], spmHistory = [Fin 118],
         currentSongBpm = Num (Fin 120),
         document = \<lparr>bpm_val = Some (Number (Fin 120)), current_spm = Some (Number (Fin 118)),
                     sync_rate = Some (Percent (Fin 98)), sync_circle = Some ''#1DB954''\<rparr>,
         console = []\<rparr>)))
       = Some (Some (Number (Fin 0)), Some (Percent (Fin 98)), Some ''#1DB954'')
   \<and> currentSongBpm (initial \<lparr>bpm_val = Some (Text ''--''), current_spm = Some (Text ''0''),
        sync_rate = Some (Text ''--''), sync_circle = Some ''#333''\<rparr>) = Num (Fin 0)
   \<and> map_option (\<lambda>s. (current_spm s, sync_rate s, sync_circle s))
       (Some (document (updateSyncDisplay (Fin 100)
        (initial \<lparr>bpm_val = Some (Text ''--''), current_spm = Some (Text ''0''),
        sync_rate = Some (Text ''--''), sync_circle = Some ''#333''\<rparr>))))
       = Some (Some (Number (Fin 100)), Some (Text ''--''), Some ''#333'')
   \<and> list_all bringsNoTempo
        (map Motion
           (\<lparr>ev_acceleration = Some (Acceleration (Some 0) (Some 0) (Some 0)), ev_interval = None\<rparr>
            # \<lparr>ev_acceleration = Some (Acceleration (Some 2) (Some 0) None), ev_interval = Some 20\<rparr>
            # concat (replicate 98
                [\<lparr>ev_acceleration = Some (Acceleration (Some 0) (Some 0) (Some 0)), ev_interval = None\<rparr>,
                 \<lparr>ev_acceleration = Some (Acceleration (Some 2) (Some 0) None), ev_interval = Some 20\<rparr>])
            @ [\<lparr>ev_acceleration = Some (Acceleration (Some 0) (Some 0) (Some 0)), ev_interval = None\<rparr>])
         @ [Motion \<lparr>ev_acceleration = Some (Acceleration (Some 2) (Some 0) None), ev_interval = Some 20\<rparr>,
            Poll (Parsed JNoBpm)])
   \<and> map_sum id (\<lambda>s. (currentSongBpm s, spmHistory s, current_spm (document s),
                        sync_rate (document s), sync_circle (document s)))
        (run (map Motion
           (\<lparr>ev_acceleration = Some (Acceleration (Some 0) (Some 0) (Some 0)), ev_interval = None\<rparr>
            # \<lparr>ev_acceleration = Some (Acceleration (Some 2) (Some 0) None), ev_interval = Some 20\<rparr>
            # concat (replicate 98
                [\<lparr>ev_acceleration = Some (Acceleration (Some 0) (Some 0) (Some 0)), ev_interval = None\<rparr>,
                 \<lparr>ev_acceleration = Some (Acceleration (Some 2) (Some 0) None), ev_interval = Some 20\<rparr>])
            @ [\<lparr>ev_acceleration = Some (Acceleration (Some 0) (Some 0) (Some 0)), ev_interval = None\<rparr>])
         @ [Motion \<lparr>ev_acceleration = Some (Acceleration (Some 2) (Some 0) None), ev_interval = Some 20\<rparr>,
            Poll (Parsed JNoBpm)])
           (initial \<lparr>bpm_val = Some (Text ''--''), current_spm = Some (Text ''0''),
        sync_rate = Some (Text ''--''), sync_circle = Some ''#333''\<rparr>))
       = Inr (Num (Fin 0), [Fin 1500], Some (Number (Fin 1500)), Some (Text ''--''),
              Some ''#333'')"
proof -
  let ?st = "\<lparr>normData = [], intervalData = [], spmHistory = [Fin 118],
         currentSongBpm = Num (Fin 120),
         document = \<lparr>bpm_val = Some (Number (Fin 120)), current_spm = Some (Number (Fin 118)),
                     sync_rate = Some (Percent (Fin 98)), sync_circle = Some ''#1DB954''\<rparr>,
         console = []\<rparr>"
  let ?pg = "\<lparr>bpm_val = Some (Text ''--''), current_spm = Some (Text ''0''),
        sync_rate = Some (Text ''--''), sync_circle = Some ''#333''\<rparr>"
  let ?es = "(map Motion
           (\<lparr>ev_acceleration = Some (Acceleration (Some 0) (Some 0) (Some 0)), ev_interval = None\<rparr>
            # \<lparr>ev_acceleration = Some (Acceleration (Some 2) (Some 0) None), ev_interval = Some 20\<rparr>
            # concat (replicate 98
                [\<lparr>ev_acceleration = Some (Acceleration (Some 0) (Some 0) (Some 0)), ev_interval = None\<rparr>,
                 \<lparr>ev_acceleration = Some (Acceleration (Some 2) (Some 0) None), ev_interval = Some 20\<rparr>])
            @ [\<lparr>ev_acceleration = Some (Acceleration (Some 0) (Some 0) (Some 0)), ev_interval = None\<rparr>])
         @ [Motion \<lparr>ev_acceleration = Some (Acceleration (Some 2) (Some 0) None), ev_interval = Some 20\<rparr>,
            Poll (Parsed JNoBpm)])"
  let ?st' = "(initial ?pg)\<lparr>spmHistory := [Fin 1500],
      document := ?pg\<lparr>current_spm := map_option (\<lambda>old. Number (Fin 1500)) (current_spm ?pg)\<rparr>\<rparr>"
  have r: "run ?es (initial ?pg) = Inr ?st'"
    by (rule run_walking_frame)
  have l: "list_all bringsNoTempo ?es"
    by (simp add: bringsNoTempo_def stores_def list_all_iff)
  have h1: "currentSongBpm ?st = Num (Fin 0) \<or> Fin 0 = Fin 0"
    by simp
  have h2: "currentSongBpm (initial ?pg) = Num (Fin 0) \<or> Fin 100 = Fin 0"
    by (simp add: initial_def)
  note zero = C8_no_score_computed_display_kept [OF h1, of ?pg ?es ?st']
  note unknown = C8_no_score_computed_display_kept [OF h2, of ?pg ?es ?st']
  have a: "syncRate (Fin 0) (Fin 120) = None"
    using zero by simp
  have b: "map_option (\<lambda>s. (current_spm s, sync_rate s, sync_circle s))
       (Some (document (updateSyncDisplay (Fin 0) ?st)))
       = Some (Some (Number (Fin 0)), Some (Percent (Fin 98)), Some ''#1DB954'')"
    unfolding zero [THEN conjunct2, THEN conjunct1] by simp
  have c: "currentSongBpm (initial ?pg) = Num (Fin 0)"
    using zero by blast
  have d: "map_option (\<lambda>s. (current_spm s, sync_rate s, sync_circle s))
       (Some (document (updateSyncDisplay (Fin 100) (initial ?pg))))
       = Some (Some (Number (Fin 100)), Some (Text ''--''), Some ''#333'')"
    unfolding unknown [THEN conjunct2, THEN conjunct1] by (simp add: initial_def)
  have "\<forall>e\<in>set ?es. bringsNoTempo e"
    using l by (simp only: list_all_iff)
  with zero r have k: "currentSongBpm ?st' = Num (Fin 0) \<and> sync_rate (document ?st') = sync_rate ?pg
         \<and> sync_circle (document ?st') = sync_circle ?pg"
    by blast
  have e: "map_sum id (\<lambda>s. (currentSongBpm s, spmHistory s, current_spm (document s),
                        sync_rate (document s), sync_circle (document s)))
        (run ?es (initial ?pg))
       = Inr (Num (Fin 0), [Fin 1500], Some (Number (Fin 1500)), Some (Text ''--''),
              Some ''#333'')"
    unfolding r using k by simp
  show ?thesis using a b c d l e by (intro conjI)
qed

section \<open>The tempo poll (claim C9)\<close>

text \<open>
  Claim C9, as the specification states it: every failing poll (network error, malformed
  payload, missing \<^verbatim>\<open>bpm\<close> field) keeps the stored tempo and is logged. It fails twice.
  A body that parses and has no \<^verbatim>\<open>bpm\<close> is not logged: the console stays empty. A body
  whose \<^verbatim>\<open>bpm\<close> is the string \<^verbatim>\<open>fast\<close>, malformed against \<^verbatim>\<open>{ "bpm": number }\<close>, is stored:
  it replaces the tempo 120, the tempo element shows it, and nothing is logged.
\<close>

theorem C9_poll_failures_counterexample:
  "specFails (Parsed JNoBpm)
   \<and> map_sum id console
        (updateSongBpm (Parsed JNoBpm)
           (initial \<lparr>bpm_val = Some (Text ''--''), current_spm = Some (Text ''0''),
              sync_rate = Some (Text ''--''), sync_circle = Some ''#333''\<rparr>))
       = Inr []
   \<and> specFails (Parsed (JBpm (Str ''fast'' NaN)))
   \<and> map_sum id (\<lambda>s. (currentSongBpm s, bpm_val (document s), console s))
        (updateSongBpm (Parsed (JBpm (Str ''fast'' NaN)))
           \<lparr>normData = [], intervalData = [], spmHistory = [Fin 118],
            currentSongBpm = Num (Fin 120),
            document = \<lparr>bpm_val = Some (Number (Fin 120)), current_spm = Some (Number (Fin 118)),
                        sync_rate = Some (Percent (Fin 98)), sync_circle = Some ''#1DB954''\<rparr>,
            console = []\<rparr>)
       = Inr (Str ''fast'' NaN, Some (Text ''fast''), [])"
  by (simp add: specFails_def updateSongBpm_def tryPoll_def initial_def)

text \<open>
  Claim C9, amended: no poll raises to its caller. A rejected fetch, a body that is not
  JSON and a \<^verbatim>\<open>null\<close> body are caught and passed to \<^verbatim>\<open>console.error\<close>, and leave the stored
  tempo and everything else as it was. A body whose \<^verbatim>\<open>bpm\<close> is missing, \<^verbatim>\<open>null\<close> or
  otherwise falsy changes nothing at all: nothing is logged for it. A body whose \<^verbatim>\<open>bpm\<close>
  is truthy replaces the stored tempo and the text of the tempo element whatever its
  type, so a \<^verbatim>\<open>bpm\<close> that is not a number is stored as well. Hence the failures that the
  specification lists keep the tempo and the page, but for a truthy \<^verbatim>\<open>bpm\<close> that is not a
  number.
\<close>

theorem C9_poll_never_raises_keeps_or_stores:
  "(\<exists>st'. updateSongBpm r st = Inr st')
   \<and> updateSongBpm Rejected st = Inr (st\<lparr>console := console st @ [FetchFailed]\<rparr>)
   \<and> updateSongBpm Unparsable st = Inr (st\<lparr>console := console st @ [SyntaxError]\<rparr>)
   \<and> updateSongBpm (Parsed JNull) st = Inr (st\<lparr>console := console st @ [TypeError]\<rparr>)
   \<and> updateSongBpm (Parsed JNoBpm) st = Inr st
   \<and> (\<not> truthy v \<longrightarrow> updateSongBpm (Parsed (JBpm v)) st = Inr st)
   \<and> (truthy v \<longrightarrow>
        updateSongBpm (Parsed (JBpm v)) st =
          Inr (st\<lparr>currentSongBpm := v,
                  document := (document st)\<lparr>bpm_val :=
                     map_option (\<lambda>old. shown v) (bpm_val (document st))\<rparr>\<rparr>))
   \<and> (specFails r \<and> \<not> stores r \<longrightarrow>
        (\<forall>st'. updateSongBpm r st = Inr st' \<longrightarrow>
           currentSongBpm st' = currentSongBpm st \<and> document st' = document st
           \<and> spmHistory st' = spmHistory st))"
proof -
  have a: "\<exists>st'. updateSongBpm r st = Inr st'"
    using updateSongBpm_frame [of r st] by blast
  have b: "updateSongBpm Rejected st = Inr (st\<lparr>console := console st @ [FetchFailed]\<rparr>)"
    "updateSongBpm Unparsable st = Inr (st\<lparr>console := console st @ [SyntaxError]\<rparr>)"
    "updateSongBpm (Parsed JNull) st = Inr (st\<lparr>console := console st @ [TypeError]\<rparr>)"
    "updateSongBpm (Parsed JNoBpm) st = Inr st"
    by (simp_all add: updateSongBpm_def tryPoll_def)
  have c: "\<not> truthy v \<longrightarrow> updateSongBpm (Parsed (JBpm v)) st = Inr st"
    by (simp add: updateSongBpm_def tryPoll_def)
  have d: "truthy v \<longrightarrow>
        updateSongBpm (Parsed (JBpm v)) st =
          Inr (st\<lparr>currentSongBpm := v,
                  document := (document st)\<lparr>bpm_val :=
                     map_option (\<lambda>old. shown v) (bpm_val (document st))\<rparr>\<rparr>)"
    by (cases "bpm_val (document st)") (simp_all add: updateSongBpm_def tryPoll_def)
  have e: "specFails r \<and> \<not> stores r \<longrightarrow>
        (\<forall>st'. updateSongBpm r st = Inr st' \<longrightarrow>
           currentSongBpm st' = currentSongBpm st \<and> document st' = document st
           \<and> spmHistory st' = spmHistory st)"
    using updateSongBpm_keeps [of r st] by auto
  show ?thesis using a b c d e by (intro conjI)
qed

text \<open>
  The amended claim on a rejected fetch in a state whose tempo is 120 (the tempo stays
  and the rejection is the one entry of the console), on a \<^verbatim>\<open>bpm\<close> 0 (nothing changes) and
  on a \<^verbatim>\<open>bpm\<close> 128 (stored and shown).
\<close>

theorem C9_poll_never_raises_keeps_or_stores_witness:
  "specFails Rejected
   \<and> map_sum id (\<lambda>s. (currentSongBpm s, bpm_val (document s), console s))
        (updateSongBpm Rejected
           \<lparr>normData = [], intervalData = [], spmHistory = [Fin 118],
            currentSongBpm = Num (Fin 120),
            document = \<lparr>bpm_val = Some (Number (Fin 120)), current_spm = Some (Number (Fin 118)),
                        sync_rate = Some (Percent (Fin 98)), sync_circle = Some ''#1DB954''\<rparr>,
            console = []\<rparr>)
       = Inr (Num (Fin 120), Some (Number (Fin 120)), [FetchFailed])
   \<and> map_sum id (\<lambda>s. (currentSongBpm s, bpm_val (document s), console s))
        (updateSongBpm (Parsed (JBpm (Num (Fin 0))))
           \<lparr>normData = [], intervalData = [], spmHistory = [Fin 118],
            currentSongBpm = Num (Fin 120),
            document = \<lparr>bpm_val = Some (Number (Fin 120)), current_spm = Some (Number (Fin 118)),
                        sync_rate = Some (Percent (Fin 98)), sync_circle = Some ''#1DB954''\<rparr>,
            console = []\<rparr>)
       = Inr (Num (Fin 120), Some (Number (Fin 120)), [])
   \<and> truthy (Num (Fin 128))
   \<and> map_sum id (\<lambda>s. (currentSongBpm s, bpm_val (document s), console s))
        (updateSongBpm (Parsed (JBpm (Num (Fin 128))))
           \<lparr>normData = [], intervalData = [], spmHistory = [Fin 118],
            currentSongBpm = Num (Fin 120),
            document = \<lparr>bpm_val = Some (Number (Fin 120)), current_spm = Some (Number (Fin 118)),
                        sync_rate = Some (Percent (Fin 98)), sync_circle = Some ''#1DB954''\<rparr>,
            console = []\<rparr>)
       = Inr (Num (Fin 128), Some (Number (Fin 128)), [])"
proof -
  let ?st = "\<lparr>normData = [], intervalData = [], spmHistory = [Fin 118],
            currentSongBpm = Num (Fin 120),
            document = \<lparr>bpm_val = Some (Number (Fin 120)), current_spm = Some (Number (Fin 118)),
                        sync_rate = Some (Percent (Fin 98)), sync_circle = Some ''#1DB954''\<rparr>,
            console = []\<rparr>"
  let ?pr = "\<lambda>s. (currentSongBpm s, bpm_val (document s), console s)"
  note rej = C9_poll_never_raises_keeps_or_stores [of Rejected ?st "Num (Fin 0)"]
  note sto = C9_poll_never_raises_keeps_or_stores [of Rejected ?st "Num (Fin 128)"]
  have f: "specFails Rejected"
    by (simp add: specFails_def)
  have n: "\<not> stores Rejected"
    by (simp add: stores_def)
  obtain st' where r: "updateSongBpm Rejected ?st = Inr st'"
    using rej by blast
  have k: "currentSongBpm st' = currentSongBpm ?st \<and> document st' = document ?st"
    using rej r f n by blast
  have "console st' = [FetchFailed]"
    using rej [THEN conjunct2, THEN conjunct1] r by auto
  with k have a: "map_sum id ?pr (updateSongBpm Rejected ?st)
      = Inr (Num (Fin 120), Some (Number (Fin 120)), [FetchFailed])"
    unfolding r by simp
  have z: "\<not> truthy (Num (Fin 0))"
    by simp
  have "updateSongBpm (Parsed (JBpm (Num (Fin 0)))) ?st = Inr ?st"
    using rej z by blast
  then have b: "map_sum id ?pr (updateSongBpm (Parsed (JBpm (Num (Fin 0)))) ?st)
      = Inr (Num (Fin 120), Some (Number (Fin 120)), [])"
    by simp
  have t: "truthy (Num (Fin 128))"
    by simp
  have "updateSongBpm (Parsed (JBpm (Num (Fin 128)))) ?st =
      Inr (?st\<lparr>currentSongBpm := Num (Fin 128),
              document := (document ?st)\<lparr>bpm_val :=
                 map_option (\<lambda>old. shown (Num (Fin 128))) (bpm_val (document ?st))\<rparr>\<rparr>)"
    using sto t by blast
  then have c: "map_sum id ?pr (updateSongBpm (Parsed (JBpm (Num (Fin 128)))) ?st)
      = Inr (Num (Fin 128), Some (Number (Fin 128)), [])"
    by simp
  show ?thesis using f a b t c by (intro conjI)
qed

end
